theory Spec2Isabelle
  imports Main "HOL-Library.Sublist"
begin

section \<open>Data model of the sandbox wrapper\<close>

text \<open>
  Modelled from the spec: the declarations of \<open>SandboxConfig\<close> (\<open>./types.js\<close>) and of
  \<open>AgentSandboxRequirements\<close> (\<open>../plugins/agents/types.js\<close>) are imported by
  \<open>wrapper.ts\<close> as types only. Section 6 of the specification lists their fields. Every
  field of the configuration that the wrapper reads through \<open>??\<close> or compares with
  \<open>=== false\<close> is optional, so it is an \<open>option\<close> here; \<open>mode\<close> is an arbitrary string, so
  that unknown mode values are inputs of the model.
\<close>

record SandboxConfig =
  enabled :: "bool option"
  mode :: "string option"
  network :: "bool option"
  allowPaths :: "string list option"
  readOnlyPaths :: "string list option"

record AgentSandboxRequirements =
  authPaths :: "string list"
  binaryPaths :: "string list"
  runtimePaths :: "string list"

record WrappedCommand =
  command :: string
  args :: "string list"

record SandboxWrapOptions =
  cwd :: "string option"

text \<open>The class \<open>SandboxWrapper\<close> holds its two constructor arguments.\<close>

record SandboxWrapper =
  config :: SandboxConfig
  requirements :: AgentSandboxRequirements

text \<open>
  The host as the wrapper observes it: \<open>existsSync\<close> of \<open>node:fs\<close> and
  \<open>process.cwd()\<close>. On a POSIX host \<open>process.cwd()\<close> is an absolute path; theorems that
  need this say so.
\<close>

record Host =
  existsSync :: "string \<Rightarrow> bool"
  processCwd :: string

section \<open>The runtime functions the wrapper calls\<close>

subsection \<open>\<open>String.prototype.trim\<close>\<close>

text \<open>
  A \<open>char\<close> is a code unit below 256. Of the white space and line terminators that
  \<open>trim\<close> strips, these are the ones a \<open>char\<close> can hold: tab, line feed, vertical tab,
  form feed, carriage return, space and no-break space.
\<close>

definition isWhiteSpace :: "char \<Rightarrow> bool" where
  "isWhiteSpace c =
     (c = CHR 0x09 \<or> c = CHR 0x0A \<or> c = CHR 0x0B \<or> c = CHR 0x0C \<or> c = CHR 0x0D
      \<or> c = CHR 0x20 \<or> c = CHR 0xA0)"

definition trim :: "string \<Rightarrow> string" where
  "trim s = rev (dropWhile isWhiteSpace (rev (dropWhile isWhiteSpace s)))"

subsection \<open>\<open>isAbsolute\<close> and \<open>resolve\<close> of \<open>node:path\<close> (POSIX)\<close>

definition isAbsolute :: "string \<Rightarrow> bool" where
  "isAbsolute p = (case p of [] \<Rightarrow> False | c # _ \<Rightarrow> c = CHR ''/'')"

text \<open>\<open>segments [] p\<close> cuts \<open>p\<close> at every slash; the first argument is the segment being read.\<close>

fun segments :: "string \<Rightarrow> string \<Rightarrow> string list" where
  "segments cur [] = [rev cur]"
| "segments cur (c # cs) =
     (if c = CHR ''/'' then rev cur # segments [] cs else segments (c # cur) cs)"

text \<open>
  \<open>normalizeString\<close> of \<open>node:path\<close>, segment by segment: an empty segment and \<open>.\<close> are
  skipped, \<open>..\<close> removes the segment before it (or, at the start of a relative path,
  stays), anything else is kept. \<open>res\<close> holds the kept segments, last one first.
\<close>

fun normalizeSegments :: "bool \<Rightarrow> string list \<Rightarrow> string list \<Rightarrow> string list" where
  "normalizeSegments allowAboveRoot res [] = rev res"
| "normalizeSegments allowAboveRoot res (s # ss) =
     (if s = [] \<or> s = ''.'' then normalizeSegments allowAboveRoot res ss
      else if s = ''..'' then
        (case res of
           [] \<Rightarrow> normalizeSegments allowAboveRoot (if allowAboveRoot then [''..''] else []) ss
         | t # ts \<Rightarrow>
             if t \<noteq> ''..'' then normalizeSegments allowAboveRoot ts ss
             else normalizeSegments allowAboveRoot (if allowAboveRoot then ''..'' # res else res) ss)
      else normalizeSegments allowAboveRoot (s # res) ss)"

fun joinSegments :: "string list \<Rightarrow> string" where
  "joinSegments [] = []"
| "joinSegments [s] = s"
| "joinSegments (s # t # ss) = s @ CHR ''/'' # joinSegments (t # ss)"

definition normalizeString :: "string \<Rightarrow> bool \<Rightarrow> string" where
  "normalizeString p allowAboveRoot =
     joinSegments (normalizeSegments allowAboveRoot [] (segments [] p))"

text \<open>
  The loop of \<open>resolve\<close>: the arguments are visited from the last to the first and then
  \<open>process.cwd()\<close>, empty ones are skipped, and the loop stops at the first absolute one.
  The list is given in visiting order.
\<close>

fun resolveLoop :: "string list \<Rightarrow> string \<Rightarrow> string \<times> bool" where
  "resolveLoop [] resolvedPath = (resolvedPath, False)"
| "resolveLoop (p # ps) resolvedPath =
     (if p = [] then resolveLoop ps resolvedPath
      else if isAbsolute p then (p @ CHR ''/'' # resolvedPath, True)
      else resolveLoop ps (p @ CHR ''/'' # resolvedPath))"

definition resolve :: "Host \<Rightarrow> string list \<Rightarrow> string" where
  "resolve h paths =
     (case resolveLoop (rev paths @ [processCwd h]) [] of
        (resolvedPath, resolvedAbsolute) \<Rightarrow>
          (let n = normalizeString resolvedPath (\<not> resolvedAbsolute)
           in if resolvedAbsolute then CHR ''/'' # n
              else if n \<noteq> [] then n else ''.''))"

subsection \<open>\<open>Set\<close>: insertion-ordered, compared with \<open>===\<close>\<close>

definition setAdd :: "'a list \<Rightarrow> 'a \<Rightarrow> 'a list" where
  "setAdd s x = (if x \<in> set s then s else s @ [x])"

definition newSet :: "'a list \<Rightarrow> 'a list" where
  "newSet xs = foldl setAdd [] xs"

definition setDelete :: "'a list \<Rightarrow> 'a \<Rightarrow> 'a list" where
  "setDelete s x = removeAll x s"

section \<open>\<open>wrapper.ts\<close>\<close>

definition SYSTEM_DIRS :: "string list" where
  "SYSTEM_DIRS = [''/usr'', ''/bin'', ''/lib'', ''/lib64'', ''/sbin'', ''/etc'']"

definition getRequirementPaths :: "SandboxWrapper \<Rightarrow> string list" where
  "getRequirementPaths this =
     authPaths (requirements this) @ binaryPaths (requirements this)
       @ runtimePaths (requirements this)"

definition normalizePaths :: "Host \<Rightarrow> string list \<Rightarrow> string \<Rightarrow> string list" where
  "normalizePaths h paths dir =
     newSet (map (\<lambda>p. if isAbsolute p then p else resolve h [dir, p])
               (filter (\<lambda>p. length (trim p) > 0) paths))"

text \<open>Line 54 and 55: \<open>workDir = resolve(options.cwd ?? process.cwd())\<close>.\<close>

definition workDirOf :: "Host \<Rightarrow> SandboxWrapOptions \<Rightarrow> string" where
  "workDirOf h options =
     resolve h [case cwd options of None \<Rightarrow> processCwd h | Some c \<Rightarrow> c]"

text \<open>Lines 68 to 71: the set \<open>readWritePaths\<close>.\<close>

definition readWriteSet :: "SandboxWrapper \<Rightarrow> Host \<Rightarrow> string \<Rightarrow> string list" where
  "readWriteSet this h workDir =
     newSet (workDir #
       normalizePaths h (case allowPaths (config this) of None \<Rightarrow> [] | Some ps \<Rightarrow> ps) workDir)"

text \<open>Lines 72 to 75: the set \<open>readOnlyPaths\<close> as first built.\<close>

definition readOnlyCandidates :: "SandboxWrapper \<Rightarrow> Host \<Rightarrow> string \<Rightarrow> string list" where
  "readOnlyCandidates this h workDir =
     newSet (normalizePaths h
               (case readOnlyPaths (config this) of None \<Rightarrow> [] | Some ps \<Rightarrow> ps) workDir
             @ normalizePaths h (getRequirementPaths this) workDir)"

text \<open>Lines 77 to 79: every read-write path is deleted from \<open>readOnlyPaths\<close>.\<close>

definition readOnlySet :: "SandboxWrapper \<Rightarrow> Host \<Rightarrow> string \<Rightarrow> string list" where
  "readOnlySet this h workDir =
     foldl setDelete (readOnlyCandidates this h workDir) (readWriteSet this h workDir)"

text \<open>
  \<open>bwrapArgs\<close> as it stands before line 89: the seed of line 56, the network flag
  (lines 58 to 60), the system directories (lines 62 to 66), the writable binds (lines 81
  to 83) and the read-only binds (lines 85 to 87).
\<close>

definition bwrapArgs :: "SandboxWrapper \<Rightarrow> Host \<Rightarrow> string \<Rightarrow> string list" where
  "bwrapArgs this h workDir =
     [''--die-with-parent'', ''--dev'', ''/dev'', ''--proc'', ''/proc'']
     @ (if network (config this) = Some False then [''--unshare-net''] else [])
     @ concat (map (\<lambda>dir. if existsSync h dir then [''--ro-bind'', dir, dir] else [])
                 SYSTEM_DIRS)
     @ concat (map (\<lambda>path. [''--bind'', path, path]) (readWriteSet this h workDir))
     @ concat (map (\<lambda>path. [''--ro-bind'', path, path]) (readOnlySet this h workDir))"

definition wrapWithBwrap ::
  "SandboxWrapper \<Rightarrow> Host \<Rightarrow> string \<Rightarrow> string list \<Rightarrow> SandboxWrapOptions \<Rightarrow> WrappedCommand" where
  "wrapWithBwrap this h cmd as options =
     (let workDir = workDirOf h options
      in \<lparr>command = ''bwrap'',
          args = bwrapArgs this h workDir @ [''--chdir'', workDir, ''--'', cmd] @ as\<rparr>)"

definition wrapCommand ::
  "SandboxWrapper \<Rightarrow> Host \<Rightarrow> string \<Rightarrow> string list \<Rightarrow> SandboxWrapOptions \<Rightarrow> WrappedCommand" where
  "wrapCommand this h cmd as options =
     (if enabled (config this) = Some False \<or> mode (config this) = Some ''off''
      then \<lparr>command = cmd, args = as\<rparr>
      else
        (let mode' = (case mode (config this) of None \<Rightarrow> ''auto'' | Some m \<Rightarrow> m)
         in if mode' \<noteq> ''auto'' \<and> mode' \<noteq> ''bwrap''
            then \<lparr>command = cmd, args = as\<rparr>
            else wrapWithBwrap this h cmd as options))"

subsection \<open>What can raise\<close>






section \<open>Facts about the runtime functions\<close>

lemma set_foldl_setAdd: "set (foldl setAdd acc xs) = set acc \<union> set xs"
  by (induction xs arbitrary: acc) (auto simp: setAdd_def)

lemma distinct_foldl_setAdd: "distinct acc \<Longrightarrow> distinct (foldl setAdd acc xs)"
  by (induction xs arbitrary: acc) (auto simp: setAdd_def)

lemma set_newSet: "set (newSet xs) = set xs"
  by (simp add: newSet_def set_foldl_setAdd)

lemma distinct_newSet: "distinct (newSet xs)"
  by (simp add: newSet_def distinct_foldl_setAdd)

lemma set_foldl_setDelete: "set (foldl setDelete s xs) = set s - set xs"
  by (induction xs arbitrary: s) (auto simp: setDelete_def)

lemma distinct_foldl_setDelete: "distinct s \<Longrightarrow> distinct (foldl setDelete s xs)"
  by (induction xs arbitrary: s) (auto simp: setDelete_def distinct_removeAll)

lemma isAbsolute_Cons [simp]: "isAbsolute (c # cs) = (c = CHR ''/'')"
  by (simp add: isAbsolute_def)

lemma isAbsolute_Nil [simp]: "\<not> isAbsolute []"
  by (simp add: isAbsolute_def)

lemma resolveLoop_absolute:
  "\<exists>p\<in>set ps. isAbsolute p \<Longrightarrow> snd (resolveLoop ps acc)"
  by (induction ps acc rule: resolveLoop.induct) auto

lemma resolveLoop_append:
  "\<exists>p\<in>set ps. isAbsolute p \<Longrightarrow> resolveLoop (ps @ qs) acc = resolveLoop ps acc"
  by (induction ps acc rule: resolveLoop.induct) auto

lemma isAbsolute_resolve:
  "\<exists>p\<in>set (processCwd h # paths). isAbsolute p \<Longrightarrow> isAbsolute (resolve h paths)"
proof -
  assume "\<exists>p\<in>set (processCwd h # paths). isAbsolute p"
  then have "\<exists>p\<in>set (rev paths @ [processCwd h]). isAbsolute p" by auto
  then have "snd (resolveLoop (rev paths @ [processCwd h]) [])" by (rule resolveLoop_absolute)
  then show ?thesis by (auto simp: resolve_def Let_def split: prod.splits)
qed

lemma resolve_host_irrelevant:
  assumes "\<exists>p\<in>set paths. isAbsolute p"
  shows "resolve h paths = resolve h' paths"
proof -
  from assms have "\<exists>p\<in>set (rev paths). isAbsolute p" by simp
  then have "resolveLoop (rev paths @ [c]) [] = resolveLoop (rev paths) []" for c
    by (rule resolveLoop_append)
  then show ?thesis by (simp add: resolve_def)
qed

section \<open>Facts about the argument vector\<close>

lemma concat_map_if:
  "concat (map (\<lambda>x. if P x then f x else []) xs) = concat (map f (filter P xs))"
  by (induction xs) auto

lemma sublist_flag_binds:
  assumes "\<forall>p\<in>set ps. p \<noteq> f"
  shows "sublist [f, a, b] (concat (map (\<lambda>p. [g, p, p]) ps) @ rest)
           \<longleftrightarrow> (f = g \<and> a = b \<and> a \<in> set ps) \<or> sublist [f, a, b] rest"
  using assms by (induction ps) (auto simp: sublist_Cons_right)

lemma sublist_flag_binds_last:
  assumes "\<forall>p\<in>set ps. p \<noteq> f"
  shows "sublist [f, a, b] (concat (map (\<lambda>p. [g, p, p]) ps))
           \<longleftrightarrow> (f = g \<and> a = b \<and> a \<in> set ps)"
  using sublist_flag_binds[OF assms, of a b g "[]"] by simp

lemma dropWhile_all_iff: "(\<forall>x\<in>set (dropWhile P xs). P x) \<longleftrightarrow> (\<forall>x\<in>set xs. P x)"
proof
  assume a: "\<forall>x\<in>set (dropWhile P xs). P x"
  have "dropWhile P xs = []"
  proof (rule ccontr)
    assume n: "dropWhile P xs \<noteq> []"
    then have "\<not> P (hd (dropWhile P xs))" by (rule hd_dropWhile)
    moreover from n have "hd (dropWhile P xs) \<in> set (dropWhile P xs)" by simp
    ultimately show False using a by blast
  qed
  then show "\<forall>x\<in>set xs. P x" by (simp add: dropWhile_eq_Nil_conv)
next
  assume "\<forall>x\<in>set xs. P x"
  then show "\<forall>x\<in>set (dropWhile P xs). P x" by (meson set_dropWhileD)
qed

lemma trim_empty_iff: "trim s = [] \<longleftrightarrow> (\<forall>c\<in>set s. isWhiteSpace c)"
  by (simp add: trim_def dropWhile_eq_Nil_conv dropWhile_all_iff)

lemma set_normalizePaths:
  "set (normalizePaths h paths dir) =
     (\<lambda>p. if isAbsolute p then p else resolve h [dir, p]) ` {p \<in> set paths. trim p \<noteq> []}"
  by (simp add: normalizePaths_def set_newSet)

lemma isAbsolute_normalizePaths:
  assumes "isAbsolute dir" "p \<in> set (normalizePaths h paths dir)"
  shows "isAbsolute p"
  using assms by (auto simp: set_normalizePaths intro: isAbsolute_resolve)

lemma isAbsolute_workDirOf:
  "isAbsolute (processCwd h) \<Longrightarrow> isAbsolute (workDirOf h options)"
  by (simp add: workDirOf_def isAbsolute_resolve)

lemma isAbsolute_readWriteSet:
  assumes "isAbsolute wd" "p \<in> set (readWriteSet this h wd)"
  shows "isAbsolute p"
  using assms by (auto simp: readWriteSet_def set_newSet dest: isAbsolute_normalizePaths)

lemma isAbsolute_readOnlySet:
  assumes "isAbsolute wd" "p \<in> set (readOnlySet this h wd)"
  shows "isAbsolute p"
  using assms
  by (auto simp: readOnlySet_def readOnlyCandidates_def set_foldl_setDelete set_newSet
      dest: isAbsolute_normalizePaths)

lemma absolute_not_flag: "isAbsolute p \<Longrightarrow> p \<noteq> CHR ''-'' # f"
  by (auto simp: isAbsolute_def)

lemma bwrapArgs_blocks:
  "bwrapArgs this h wd =
     [''--die-with-parent'', ''--dev'', ''/dev'', ''--proc'', ''/proc'']
     @ (if network (config this) = Some False then [''--unshare-net''] else [])
     @ concat (map (\<lambda>d. [''--ro-bind'', d, d]) (filter (existsSync h) SYSTEM_DIRS))
     @ concat (map (\<lambda>p. [''--bind'', p, p]) (readWriteSet this h wd))
     @ concat (map (\<lambda>p. [''--ro-bind'', p, p]) (readOnlySet this h wd))"
  by (simp add: bwrapArgs_def concat_map_if)

lemma system_dirs_not_flag: "\<forall>d\<in>set (filter P SYSTEM_DIRS). d \<noteq> CHR ''-'' # f"
  by (simp add: SYSTEM_DIRS_def)

lemma sublist_ro_bwrapArgs:
  assumes "isAbsolute wd"
  shows "sublist [''--ro-bind'', a, b] (bwrapArgs this h wd) \<longleftrightarrow>
           a = b \<and> ((a \<in> set SYSTEM_DIRS \<and> existsSync h a) \<or> a \<in> set (readOnlySet this h wd))"
proof -
  have rw: "\<forall>p\<in>set (readWriteSet this h wd). p \<noteq> ''--ro-bind''"
    using assms isAbsolute_readWriteSet absolute_not_flag by blast
  have ro: "\<forall>p\<in>set (readOnlySet this h wd). p \<noteq> ''--ro-bind''"
    using assms isAbsolute_readOnlySet absolute_not_flag by blast
  have sys: "\<forall>d\<in>set (filter (existsSync h) SYSTEM_DIRS). d \<noteq> ''--ro-bind''"
    by (rule system_dirs_not_flag)
  show ?thesis
    unfolding bwrapArgs_blocks
    by (simp add: sublist_Cons_right sublist_flag_binds[OF sys] sublist_flag_binds[OF rw]
        sublist_flag_binds_last[OF ro]) blast
qed

lemma sublist_rw_bwrapArgs:
  assumes "isAbsolute wd"
  shows "sublist [''--bind'', a, b] (bwrapArgs this h wd) \<longleftrightarrow>
           a = b \<and> a \<in> set (readWriteSet this h wd)"
proof -
  have rw: "\<forall>p\<in>set (readWriteSet this h wd). p \<noteq> ''--bind''"
    using assms isAbsolute_readWriteSet absolute_not_flag by blast
  have ro: "\<forall>p\<in>set (readOnlySet this h wd). p \<noteq> ''--bind''"
    using assms isAbsolute_readOnlySet absolute_not_flag by blast
  have sys: "\<forall>d\<in>set (filter (existsSync h) SYSTEM_DIRS). d \<noteq> ''--bind''"
    by (rule system_dirs_not_flag)
  show ?thesis
    unfolding bwrapArgs_blocks
    by (simp add: sublist_Cons_right sublist_flag_binds[OF sys] sublist_flag_binds[OF rw]
        sublist_flag_binds_last[OF ro])
qed

lemma sublist_bind_member:
  assumes "p \<in> set ps"
  shows "sublist [g, p, p] (pre @ concat (map (\<lambda>p. [g, p, p]) ps) @ post)"
proof -
  from assms obtain xs ys where ps: "ps = xs @ p # ys" by (auto dest: split_list)
  have "pre @ concat (map (\<lambda>p. [g, p, p]) ps) @ post =
          (pre @ concat (map (\<lambda>p. [g, p, p]) xs)) @ [g, p, p]
            @ (concat (map (\<lambda>p. [g, p, p]) ys) @ post)"
    by (simp add: ps)
  then show ?thesis unfolding sublist_def by blast
qed

lemma sublist_rw_bind:
  assumes "p \<in> set (readWriteSet this h wd)"
  shows "sublist [''--bind'', p, p] (bwrapArgs this h wd @ rest)"
proof -
  have eq: "bwrapArgs this h wd @ rest =
          ([''--die-with-parent'', ''--dev'', ''/dev'', ''--proc'', ''/proc'']
             @ (if network (config this) = Some False then [''--unshare-net''] else [])
             @ concat (map (\<lambda>d. [''--ro-bind'', d, d]) (filter (existsSync h) SYSTEM_DIRS)))
           @ concat (map (\<lambda>p. [''--bind'', p, p]) (readWriteSet this h wd))
           @ (concat (map (\<lambda>p. [''--ro-bind'', p, p]) (readOnlySet this h wd)) @ rest)"
    by (simp add: bwrapArgs_blocks)
  show ?thesis unfolding eq using assms by (rule sublist_bind_member)
qed

lemma sublist_ro_bind:
  assumes "p \<in> set (readOnlySet this h wd)"
  shows "sublist [''--ro-bind'', p, p] (bwrapArgs this h wd @ rest)"
proof -
  have eq: "bwrapArgs this h wd @ rest =
          ([''--die-with-parent'', ''--dev'', ''/dev'', ''--proc'', ''/proc'']
             @ (if network (config this) = Some False then [''--unshare-net''] else [])
             @ concat (map (\<lambda>d. [''--ro-bind'', d, d]) (filter (existsSync h) SYSTEM_DIRS))
             @ concat (map (\<lambda>p. [''--bind'', p, p]) (readWriteSet this h wd)))
           @ concat (map (\<lambda>p. [''--ro-bind'', p, p]) (readOnlySet this h wd)) @ rest"
    by (simp add: bwrapArgs_blocks)
  show ?thesis unfolding eq using assms by (rule sublist_bind_member)
qed

lemma workDir_in_readWriteSet: "wd \<in> set (readWriteSet this h wd)"
  by (simp add: readWriteSet_def set_newSet)

lemma set_readOnlySet:
  "set (readOnlySet this h wd) = set (readOnlyCandidates this h wd) - set (readWriteSet this h wd)"
  by (simp add: readOnlySet_def set_foldl_setDelete)

lemma args_wrapWithBwrap:
  "args (wrapWithBwrap this h cmd as options) =
     bwrapArgs this h (workDirOf h options) @ [''--chdir'', workDirOf h options, ''--'', cmd] @ as"
  by (simp add: wrapWithBwrap_def Let_def)

lemma count_list_binds:
  assumes "g \<noteq> f" and "\<forall>p\<in>set ps. p \<noteq> f"
  shows "count_list (concat (map (\<lambda>p. [g, p, p]) ps)) f = 0"
  using assms by (induction ps) auto

lemma count_unshare_net_bwrapArgs:
  assumes "isAbsolute wd"
  shows "count_list (bwrapArgs this h wd) ''--unshare-net'' =
           (if network (config this) = Some False then 1 else 0)"
proof -
  have rw: "\<forall>p\<in>set (readWriteSet this h wd). p \<noteq> ''--unshare-net''"
    using assms isAbsolute_readWriteSet absolute_not_flag by blast
  have ro: "\<forall>p\<in>set (readOnlySet this h wd). p \<noteq> ''--unshare-net''"
    using assms isAbsolute_readOnlySet absolute_not_flag by blast
  have sys: "\<forall>d\<in>set (filter (existsSync h) SYSTEM_DIRS). d \<noteq> ''--unshare-net''"
    by (rule system_dirs_not_flag)
  show ?thesis
    unfolding bwrapArgs_blocks
    by (simp add: count_list_binds[OF _ sys] count_list_binds[OF _ rw] count_list_binds[OF _ ro])
qed

lemma distinct_normalizePaths: "distinct (normalizePaths h paths dir)"
  by (simp add: normalizePaths_def distinct_newSet)

lemma normalizePaths_host_irrelevant:
  assumes "isAbsolute dir"
  shows "normalizePaths h paths dir = normalizePaths h' paths dir"
proof -
  have "resolve h [dir, p] = resolve h' [dir, p]" for p
    using assms by (intro resolve_host_irrelevant) simp
  then have "(\<lambda>p. if isAbsolute p then p else resolve h [dir, p]) =
             (\<lambda>p. if isAbsolute p then p else resolve h' [dir, p])"
    by presburger
  then show ?thesis unfolding normalizePaths_def by (rule arg_cong)
qed

lemma resolve_relative:
  assumes "isAbsolute dir" and "p \<noteq> []" and "\<not> isAbsolute p"
  shows "resolve h [dir, p] = CHR ''/'' # normalizeString (dir @ CHR ''/'' # p @ ''/'') False"
proof -
  from assms(1) have "dir \<noteq> []" by auto
  with assms show ?thesis by (simp add: resolve_def)
qed

lemma absolute_not_blank: "isAbsolute p \<Longrightarrow> trim p \<noteq> []"
  by (cases p) (auto simp: trim_empty_iff isWhiteSpace_def)

lemma absolute_in_normalizePaths:
  assumes "isAbsolute p" and "p \<in> set paths"
  shows "p \<in> set (normalizePaths h paths dir)"
proof -
  from assms have "p \<in> {p \<in> set paths. trim p \<noteq> []}"
    by (simp add: absolute_not_blank)
  then have "(if isAbsolute p then p else resolve h [dir, p])
               \<in> (\<lambda>p. if isAbsolute p then p else resolve h [dir, p]) ` {p \<in> set paths. trim p \<noteq> []}"
    by (rule imageI)
  with assms(1) show ?thesis by (simp add: set_normalizePaths)
qed

lemma foldl_setAdd_extends: "\<exists>zs. foldl setAdd acc xs = acc @ zs"
proof (induction xs arbitrary: acc)
  case Nil
  show ?case by simp
next
  case (Cons x xs)
  obtain zs where zs: "foldl setAdd (setAdd acc x) xs = setAdd acc x @ zs"
    using Cons.IH by blast
  obtain ys where "setAdd acc x = acc @ ys"
    by (cases "x \<in> set acc") (simp_all add: setAdd_def)
  with zs show ?case by simp
qed

lemma readWriteSet_starts_with_workDir: "\<exists>zs. readWriteSet this h wd = wd # zs"
proof -
  obtain zs where "foldl setAdd (setAdd [] wd)
      (normalizePaths h (case allowPaths (config this) of None \<Rightarrow> [] | Some ps \<Rightarrow> ps) wd)
      = setAdd [] wd @ zs"
    using foldl_setAdd_extends by blast
  then show ?thesis by (simp add: readWriteSet_def newSet_def setAdd_def)
qed

lemma distinct_readWriteSet: "distinct (readWriteSet this h wd)"
  by (simp add: readWriteSet_def distinct_newSet)

lemma distinct_readOnlySet: "distinct (readOnlySet this h wd)"
  by (simp add: readOnlySet_def readOnlyCandidates_def distinct_newSet distinct_foldl_setDelete)

lemma distinct_resolved_sets:
  "distinct (readWriteSet this h wd @ readOnlySet this h wd)"
  by (auto simp: distinct_readWriteSet distinct_readOnlySet set_readOnlySet)

lemma rw_bind_split:
  assumes "isAbsolute wd" and "readWriteSet this h wd = xs @ p # ys"
  shows "bwrapArgs this h wd =
           ([''--die-with-parent'', ''--dev'', ''/dev'', ''--proc'', ''/proc'']
             @ (if network (config this) = Some False then [''--unshare-net''] else [])
             @ concat (map (\<lambda>d. [''--ro-bind'', d, d]) (filter (existsSync h) SYSTEM_DIRS))
             @ concat (map (\<lambda>p. [''--bind'', p, p]) xs))
           @ [''--bind'', p, p]
           @ (concat (map (\<lambda>p. [''--bind'', p, p]) ys)
             @ concat (map (\<lambda>p. [''--ro-bind'', p, p]) (readOnlySet this h wd)))"
    and "\<not> sublist [''--ro-bind'', p, p]
           (concat (map (\<lambda>p. [''--bind'', p, p]) ys)
             @ concat (map (\<lambda>p. [''--ro-bind'', p, p]) (readOnlySet this h wd)))"
    and "sublist [''--ro-bind'', p, p]
           ([''--die-with-parent'', ''--dev'', ''/dev'', ''--proc'', ''/proc'']
             @ (if network (config this) = Some False then [''--unshare-net''] else [])
             @ concat (map (\<lambda>d. [''--ro-bind'', d, d]) (filter (existsSync h) SYSTEM_DIRS))
             @ concat (map (\<lambda>p. [''--bind'', p, p]) xs))
         \<longleftrightarrow> p \<in> set SYSTEM_DIRS \<and> existsSync h p"
proof -
  have mem: "set xs \<subseteq> set (readWriteSet this h wd)" "set ys \<subseteq> set (readWriteSet this h wd)"
    "p \<in> set (readWriteSet this h wd)"
    using assms(2) by auto
  have xs: "\<forall>q\<in>set xs. q \<noteq> ''--ro-bind''"
    using assms(1) mem(1) isAbsolute_readWriteSet absolute_not_flag by blast
  have ys: "\<forall>q\<in>set ys. q \<noteq> ''--ro-bind''"
    using assms(1) mem(2) isAbsolute_readWriteSet absolute_not_flag by blast
  have ro: "\<forall>q\<in>set (readOnlySet this h wd). q \<noteq> ''--ro-bind''"
    using assms(1) isAbsolute_readOnlySet absolute_not_flag by blast
  have sys: "\<forall>d\<in>set (filter (existsSync h) SYSTEM_DIRS). d \<noteq> ''--ro-bind''"
    by (rule system_dirs_not_flag)
  have notro: "p \<notin> set (readOnlySet this h wd)"
    using mem(3) by (simp add: set_readOnlySet)
  show "bwrapArgs this h wd =
           ([''--die-with-parent'', ''--dev'', ''/dev'', ''--proc'', ''/proc'']
             @ (if network (config this) = Some False then [''--unshare-net''] else [])
             @ concat (map (\<lambda>d. [''--ro-bind'', d, d]) (filter (existsSync h) SYSTEM_DIRS))
             @ concat (map (\<lambda>p. [''--bind'', p, p]) xs))
           @ [''--bind'', p, p]
           @ (concat (map (\<lambda>p. [''--bind'', p, p]) ys)
             @ concat (map (\<lambda>p. [''--ro-bind'', p, p]) (readOnlySet this h wd)))"
    by (simp add: bwrapArgs_blocks assms(2))
  show "\<not> sublist [''--ro-bind'', p, p]
           (concat (map (\<lambda>p. [''--bind'', p, p]) ys)
             @ concat (map (\<lambda>p. [''--ro-bind'', p, p]) (readOnlySet this h wd)))"
    using notro by (simp add: sublist_flag_binds[OF ys] sublist_flag_binds_last[OF ro])
  show "sublist [''--ro-bind'', p, p]
           ([''--die-with-parent'', ''--dev'', ''/dev'', ''--proc'', ''/proc'']
             @ (if network (config this) = Some False then [''--unshare-net''] else [])
             @ concat (map (\<lambda>d. [''--ro-bind'', d, d]) (filter (existsSync h) SYSTEM_DIRS))
             @ concat (map (\<lambda>p. [''--bind'', p, p]) xs))
         \<longleftrightarrow> p \<in> set SYSTEM_DIRS \<and> existsSync h p"
    by (simp add: sublist_Cons_right sublist_flag_binds[OF sys] sublist_flag_binds_last[OF xs])
qed

lemma rw_bind_position:
  assumes "isAbsolute wd" and "p \<in> set (readWriteSet this h wd)"
  shows "\<exists>pre post. bwrapArgs this h wd = pre @ [''--bind'', p, p] @ post
           \<and> \<not> sublist [''--ro-bind'', p, p] post
           \<and> (sublist [''--ro-bind'', p, p] pre \<longleftrightarrow> p \<in> set SYSTEM_DIRS \<and> existsSync h p)"
proof -
  from assms(2) obtain xs ys where s: "readWriteSet this h wd = xs @ p # ys"
    by (auto dest: split_list)
  from rw_bind_split[OF assms(1) s] show ?thesis by blast
qed

lemma workDir_bind_position:
  assumes "isAbsolute wd"
  shows "\<exists>post. bwrapArgs this h wd =
           [''--die-with-parent'', ''--dev'', ''/dev'', ''--proc'', ''/proc'']
             @ (if network (config this) = Some False then [''--unshare-net''] else [])
             @ concat (map (\<lambda>d. [''--ro-bind'', d, d]) (filter (existsSync h) SYSTEM_DIRS))
             @ [''--bind'', wd, wd] @ post
           \<and> \<not> sublist [''--ro-bind'', wd, wd] post"
proof -
  obtain zs where s: "readWriteSet this h wd = [] @ wd # zs"
    using readWriteSet_starts_with_workDir by fastforce
  from rw_bind_split(1,2)[OF assms s] show ?thesis by auto
qed

lemma workDirOf_absolute_cwd:
  assumes "cwd options = Some c" and "isAbsolute c"
  shows "workDirOf h options = CHR ''/'' # normalizeString (c @ ''/'') False"
proof -
  from assms(2) have "c \<noteq> []" by auto
  with assms show ?thesis by (simp add: workDirOf_def resolve_def)
qed

lemma workDirOf_relative_cwd:
  assumes "cwd options = Some c" and "c \<noteq> []" and "\<not> isAbsolute c"
    and "isAbsolute (processCwd h)"
  shows "workDirOf h options =
           CHR ''/'' # normalizeString (processCwd h @ CHR ''/'' # c @ ''/'') False"
proof -
  from assms(4) have "processCwd h \<noteq> []" by auto
  with assms show ?thesis by (simp add: workDirOf_def resolve_def)
qed

lemma set_readWriteSet:
  "set (readWriteSet this h wd) =
     insert wd (set (normalizePaths h
        (case allowPaths (config this) of None \<Rightarrow> [] | Some ps \<Rightarrow> ps) wd))"
  by (simp add: readWriteSet_def set_newSet)

lemma set_readOnlyCandidates:
  "set (readOnlyCandidates this h wd) =
     set (normalizePaths h (case readOnlyPaths (config this) of None \<Rightarrow> [] | Some ps \<Rightarrow> ps) wd)
     \<union> set (normalizePaths h (getRequirementPaths this) wd)"
  by (simp add: readOnlyCandidates_def set_newSet)

lemma wrapCommand_wraps:
  assumes "enabled (config this) \<noteq> Some False"
    and "mode (config this) \<in> {None, Some ''auto'', Some ''bwrap''}"
  shows "wrapCommand this h cmd as options = wrapWithBwrap this h cmd as options"
  using assms by (auto simp: wrapCommand_def Let_def)

text \<open>The definitions a concrete call is evaluated with.\<close>

lemmas wrapper_defs =
  wrapCommand_def wrapWithBwrap_def workDirOf_def bwrapArgs_def readWriteSet_def
  readOnlySet_def readOnlyCandidates_def normalizePaths_def getRequirementPaths_def
  SYSTEM_DIRS_def newSet_def setAdd_def setDelete_def resolve_def normalizeString_def
  trim_def isWhiteSpace_def

section \<open>The decision gate\<close>

text \<open>
  Claim C3. Whenever \<open>enabled\<close> is \<open>false\<close>, or \<open>mode\<close> is \<open>'off'\<close>, or \<open>mode\<close> (an absent
  mode counting as \<open>'auto'\<close>) is neither \<open>'auto'\<close> nor \<open>'bwrap'\<close>, \<open>wrapCommand\<close> returns
  the command and its arguments as they were given. The result is a value: no error is
  raised on this path.
\<close>

theorem wrapCommand_pass_through:
  assumes "enabled (config this) = Some False \<or> mode (config this) = Some ''off''
           \<or> (case mode (config this) of None \<Rightarrow> ''auto'' | Some m \<Rightarrow> m) \<notin> {''auto'', ''bwrap''}"
  shows "wrapCommand this h cmd as options = \<lparr>command = cmd, args = as\<rparr>"
  using assms by (auto simp: wrapCommand_def Let_def)

text \<open>One call for each of the three reasons: disabled, mode off, another backend.\<close>

theorem wrapCommand_pass_through_witness:
  "wrapCommand
     \<lparr>config = \<lparr>enabled = Some False, mode = Some ''bwrap'', network = None,
                allowPaths = None, readOnlyPaths = None\<rparr>,
      requirements = \<lparr>authPaths = [], binaryPaths = [], runtimePaths = []\<rparr>\<rparr>
     \<lparr>existsSync = (\<lambda>d. True), processCwd = ''/home/u''\<rparr>
     ''echo'' [''hi''] \<lparr>cwd = None\<rparr>
   = \<lparr>command = ''echo'', args = [''hi'']\<rparr>
   \<and> wrapCommand
     \<lparr>config = \<lparr>enabled = None, mode = Some ''off'', network = None,
                allowPaths = None, readOnlyPaths = None\<rparr>,
      requirements = \<lparr>authPaths = [], binaryPaths = [], runtimePaths = []\<rparr>\<rparr>
     \<lparr>existsSync = (\<lambda>d. True), processCwd = ''/home/u''\<rparr>
     ''echo'' [''hi''] \<lparr>cwd = None\<rparr>
   = \<lparr>command = ''echo'', args = [''hi'']\<rparr>
   \<and> wrapCommand
     \<lparr>config = \<lparr>enabled = Some True, mode = Some ''sandbox-exec'', network = None,
                allowPaths = None, readOnlyPaths = None\<rparr>,
      requirements = \<lparr>authPaths = [], binaryPaths = [], runtimePaths = []\<rparr>\<rparr>
     \<lparr>existsSync = (\<lambda>d. True), processCwd = ''/home/u''\<rparr>
     ''echo'' [''hi''] \<lparr>cwd = None\<rparr>
   = \<lparr>command = ''echo'', args = [''hi'']\<rparr>"
  by (intro conjI; rule wrapCommand_pass_through; simp)

section \<open>The payload\<close>

text \<open>
  Claim C4. When the gate lets the call through, the returned argument vector is the
  options built by the wrapper, then \<open>--chdir\<close> and the working directory, then the
  separator \<open>--\<close>, then the command and its arguments in their order: the command and
  its arguments are a suffix of the vector. The inputs are values of the model; the
  result is a new vector and nothing is written to them.
\<close>

theorem wrapped_payload_trailing:
  assumes "enabled (config this) \<noteq> Some False"
    and "mode (config this) \<in> {None, Some ''auto'', Some ''bwrap''}"
  shows "args (wrapCommand this h cmd as options) =
           bwrapArgs this h (workDirOf h options)
             @ [''--chdir'', workDirOf h options, ''--'', cmd] @ as
         \<and> suffix (cmd # as) (args (wrapCommand this h cmd as options))"
proof -
  have "args (wrapCommand this h cmd as options) =
           (bwrapArgs this h (workDirOf h options)
             @ [''--chdir'', workDirOf h options, ''--'']) @ cmd # as"
    by (simp add: wrapCommand_wraps[OF assms] wrapWithBwrap_def Let_def)
  then show ?thesis by (simp add: suffix_def)
qed

text \<open>The end-to-end example of the specification, with two arguments.\<close>

theorem wrapped_payload_trailing_witness:
  "args (wrapCommand
     \<lparr>config = \<lparr>enabled = None, mode = Some ''auto'', network = Some False,
                allowPaths = Some [''./out''], readOnlyPaths = Some []\<rparr>,
      requirements = \<lparr>authPaths = [''/home/u/.creds''], binaryPaths = [], runtimePaths = []\<rparr>\<rparr>
     \<lparr>existsSync = (\<lambda>d. d \<in> set [''/usr'', ''/bin'', ''/etc'']), processCwd = ''/home/u''\<rparr>
     ''echo'' [''hi'', ''there''] \<lparr>cwd = Some ''/proj''\<rparr>)
   = [''--die-with-parent'', ''--dev'', ''/dev'', ''--proc'', ''/proc'',
       ''--unshare-net'', ''--ro-bind'', ''/usr'', ''/usr'', ''--ro-bind'',
       ''/bin'', ''/bin'', ''--ro-bind'', ''/etc'', ''/etc'', ''--bind'',
       ''/proj'', ''/proj'', ''--bind'', ''/proj/out'', ''/proj/out'',
       ''--ro-bind'', ''/home/u/.creds'', ''/home/u/.creds'']
     @ [''--chdir'', ''/proj'', ''--'', ''echo''] @ [''hi'', ''there'']"
  using wrapped_payload_trailing[where
      this = "\<lparr>config = \<lparr>enabled = None, mode = Some ''auto'', network = Some False,
                allowPaths = Some [''./out''], readOnlyPaths = Some []\<rparr>,
      requirements = \<lparr>authPaths = [''/home/u/.creds''], binaryPaths = [], runtimePaths = []\<rparr>\<rparr>"
      and h = "\<lparr>existsSync = (\<lambda>d. d \<in> set [''/usr'', ''/bin'', ''/etc'']), processCwd = ''/home/u''\<rparr>"
      and cmd = "''echo''" and as = "[''hi'', ''there'']" and options = "\<lparr>cwd = Some ''/proj''\<rparr>"]
  by (simp add: wrapper_defs)

section \<open>\<open>wrapWithBwrap\<close> called directly\<close>

text \<open>
  Claim C10. \<open>wrapWithBwrap\<close> is a method without the \<open>private\<close> modifier. It reads
  neither \<open>enabled\<close> nor \<open>mode\<close>: for every configuration it returns \<open>bwrap\<close> with the
  constructed vector, and changing \<open>enabled\<close> and \<open>mode\<close> does not change its result.
\<close>

theorem wrapWithBwrap_ungated:
  "command (wrapWithBwrap this h cmd as options) = ''bwrap''
   \<and> args (wrapWithBwrap this h cmd as options) =
       bwrapArgs this h (workDirOf h options)
         @ [''--chdir'', workDirOf h options, ''--'', cmd] @ as
   \<and> wrapWithBwrap (this\<lparr>config := (config this)\<lparr>enabled := e, mode := m\<rparr>\<rparr>) h cmd as options
       = wrapWithBwrap this h cmd as options"
  by (simp add: wrapWithBwrap_def Let_def bwrapArgs_def readWriteSet_def readOnlySet_def
      readOnlyCandidates_def getRequirementPaths_def)

text \<open>
  With \<open>enabled = false\<close> and \<open>mode = 'off'\<close>, \<open>wrapWithBwrap\<close> wraps and \<open>wrapCommand\<close>
  passes through.
\<close>

theorem wrapWithBwrap_ungated_witness:
  "(command (wrapWithBwrap
      \<lparr>config = \<lparr>enabled = Some False, mode = Some ''off'', network = None,
                 allowPaths = None, readOnlyPaths = None\<rparr>,
       requirements = \<lparr>authPaths = [], binaryPaths = [], runtimePaths = []\<rparr>\<rparr>
      \<lparr>existsSync = (\<lambda>d. d = ''/usr''), processCwd = ''/home/u''\<rparr>
      ''echo'' [''hi''] \<lparr>cwd = None\<rparr>) = ''bwrap''
    \<and> args (wrapWithBwrap
      \<lparr>config = \<lparr>enabled = Some False, mode = Some ''off'', network = None,
                 allowPaths = None, readOnlyPaths = None\<rparr>,
       requirements = \<lparr>authPaths = [], binaryPaths = [], runtimePaths = []\<rparr>\<rparr>
      \<lparr>existsSync = (\<lambda>d. d = ''/usr''), processCwd = ''/home/u''\<rparr>
      ''echo'' [''hi''] \<lparr>cwd = None\<rparr>)
      = bwrapArgs
          \<lparr>config = \<lparr>enabled = Some False, mode = Some ''off'', network = None,
                     allowPaths = None, readOnlyPaths = None\<rparr>,
           requirements = \<lparr>authPaths = [], binaryPaths = [], runtimePaths = []\<rparr>\<rparr>
          \<lparr>existsSync = (\<lambda>d. d = ''/usr''), processCwd = ''/home/u''\<rparr>
          (workDirOf \<lparr>existsSync = (\<lambda>d. d = ''/usr''), processCwd = ''/home/u''\<rparr>
             \<lparr>cwd = None\<rparr>)
        @ [''--chdir'',
           workDirOf \<lparr>existsSync = (\<lambda>d. d = ''/usr''), processCwd = ''/home/u''\<rparr>
             \<lparr>cwd = None\<rparr>, ''--'', ''echo''] @ [''hi'']
    \<and> wrapWithBwrap
      (\<lparr>config = \<lparr>enabled = Some False, mode = Some ''off'', network = None,
                 allowPaths = None, readOnlyPaths = None\<rparr>,
        requirements = \<lparr>authPaths = [], binaryPaths = [], runtimePaths = []\<rparr>\<rparr>
       \<lparr>config :=
          (config \<lparr>config = \<lparr>enabled = Some False, mode = Some ''off'', network = None,
                     allowPaths = None, readOnlyPaths = None\<rparr>,
                  requirements = \<lparr>authPaths = [], binaryPaths = [], runtimePaths = []\<rparr>\<rparr>)
          \<lparr>enabled := Some True, mode := Some ''bwrap''\<rparr>\<rparr>)
      \<lparr>existsSync = (\<lambda>d. d = ''/usr''), processCwd = ''/home/u''\<rparr>
      ''echo'' [''hi''] \<lparr>cwd = None\<rparr>
     = wrapWithBwrap
      \<lparr>config = \<lparr>enabled = Some False, mode = Some ''off'', network = None,
                 allowPaths = None, readOnlyPaths = None\<rparr>,
       requirements = \<lparr>authPaths = [], binaryPaths = [], runtimePaths = []\<rparr>\<rparr>
      \<lparr>existsSync = (\<lambda>d. d = ''/usr''), processCwd = ''/home/u''\<rparr>
      ''echo'' [''hi''] \<lparr>cwd = None\<rparr>)
   \<and> wrapWithBwrap
      \<lparr>config = \<lparr>enabled = Some False, mode = Some ''off'', network = None,
                 allowPaths = None, readOnlyPaths = None\<rparr>,
       requirements = \<lparr>authPaths = [], binaryPaths = [], runtimePaths = []\<rparr>\<rparr>
      \<lparr>existsSync = (\<lambda>d. d = ''/usr''), processCwd = ''/home/u''\<rparr>
      ''echo'' [''hi''] \<lparr>cwd = None\<rparr>
    = \<lparr>command = ''bwrap'',
       args = [''--die-with-parent'', ''--dev'', ''/dev'', ''--proc'', ''/proc'',
               ''--ro-bind'', ''/usr'', ''/usr'', ''--bind'', ''/home/u'', ''/home/u'',
               ''--chdir'', ''/home/u'', ''--'', ''echo'', ''hi'']\<rparr>
   \<and> wrapCommand
      \<lparr>config = \<lparr>enabled = Some False, mode = Some ''off'', network = None,
                 allowPaths = None, readOnlyPaths = None\<rparr>,
       requirements = \<lparr>authPaths = [], binaryPaths = [], runtimePaths = []\<rparr>\<rparr>
      \<lparr>existsSync = (\<lambda>d. d = ''/usr''), processCwd = ''/home/u''\<rparr>
      ''echo'' [''hi''] \<lparr>cwd = None\<rparr>
    = \<lparr>command = ''echo'', args = [''hi'']\<rparr>"
proof (rule conjI)
  show "wrapWithBwrap
      \<lparr>config = \<lparr>enabled = Some False, mode = Some ''off'', network = None,
                 allowPaths = None, readOnlyPaths = None\<rparr>,
       requirements = \<lparr>authPaths = [], binaryPaths = [], runtimePaths = []\<rparr>\<rparr>
      \<lparr>existsSync = (\<lambda>d. d = ''/usr''), processCwd = ''/home/u''\<rparr>
      ''echo'' [''hi''] \<lparr>cwd = None\<rparr>
    = \<lparr>command = ''bwrap'',
       args = [''--die-with-parent'', ''--dev'', ''/dev'', ''--proc'', ''/proc'',
               ''--ro-bind'', ''/usr'', ''/usr'', ''--bind'', ''/home/u'', ''/home/u'',
               ''--chdir'', ''/home/u'', ''--'', ''echo'', ''hi'']\<rparr>
   \<and> wrapCommand
      \<lparr>config = \<lparr>enabled = Some False, mode = Some ''off'', network = None,
                 allowPaths = None, readOnlyPaths = None\<rparr>,
       requirements = \<lparr>authPaths = [], binaryPaths = [], runtimePaths = []\<rparr>\<rparr>
      \<lparr>existsSync = (\<lambda>d. d = ''/usr''), processCwd = ''/home/u''\<rparr>
      ''echo'' [''hi''] \<lparr>cwd = None\<rparr>
    = \<lparr>command = ''echo'', args = [''hi'']\<rparr>"
    by code_simp
qed (rule wrapWithBwrap_ungated)

section \<open>System directories\<close>

text \<open>
  Claim C6, as stated, fails when a system directory that does not exist on the host is
  listed in \<open>readOnlyPaths\<close> (or in a requirement list): its read-only bind is emitted
  from the resolved read-only set, without any existence check.
\<close>

theorem system_dir_bind_counterexample:
  "\<not> existsSync
       \<lparr>existsSync = (\<lambda>d. d \<in> set [''/usr'', ''/bin'', ''/lib'', ''/sbin'', ''/etc'']),
        processCwd = ''/home/u''\<rparr> ''/lib64''
   \<and> sublist [''--ro-bind'', ''/lib64'', ''/lib64'']
      (args (wrapCommand
        \<lparr>config = \<lparr>enabled = None, mode = None, network = None,
                   allowPaths = None, readOnlyPaths = Some [''/lib64'']\<rparr>,
         requirements = \<lparr>authPaths = [], binaryPaths = [], runtimePaths = []\<rparr>\<rparr>
        \<lparr>existsSync = (\<lambda>d. d \<in> set [''/usr'', ''/bin'', ''/lib'', ''/sbin'', ''/etc'']),
         processCwd = ''/home/u''\<rparr>
        ''echo'' [''hi''] \<lparr>cwd = Some ''/proj''\<rparr>))
   \<and> args (wrapCommand
        \<lparr>config = \<lparr>enabled = None, mode = None, network = None,
                   allowPaths = None, readOnlyPaths = Some [''/lib64'']\<rparr>,
         requirements = \<lparr>authPaths = [], binaryPaths = [], runtimePaths = []\<rparr>\<rparr>
        \<lparr>existsSync = (\<lambda>d. d \<in> set [''/usr'', ''/bin'', ''/lib'', ''/sbin'', ''/etc'']),
         processCwd = ''/home/u''\<rparr>
        ''echo'' [''hi''] \<lparr>cwd = Some ''/proj''\<rparr>)
      = [''--die-with-parent'', ''--dev'', ''/dev'', ''--proc'', ''/proc'',
         ''--ro-bind'', ''/usr'', ''/usr'', ''--ro-bind'', ''/bin'', ''/bin'',
         ''--ro-bind'', ''/lib'', ''/lib'', ''--ro-bind'', ''/sbin'', ''/sbin'',
         ''--ro-bind'', ''/etc'', ''/etc'',
         ''--bind'', ''/proj'', ''/proj'', ''--ro-bind'', ''/lib64'', ''/lib64'',
         ''--chdir'', ''/proj'', ''--'', ''echo'', ''hi'']"
  by code_simp

text \<open>
  Claim C6, amended. With an absolute \<open>process.cwd()\<close>, the options that precede the
  working-directory pin hold a read-only self-bind of \<open>d\<close> exactly when \<open>d\<close> is one of
  the six system directories and exists on the host, or \<open>d\<close> is in the resolved read-only
  set. The system-directory step itself contributes the read-only self-binds of the
  existing directories of the fixed list, in the order of the list, and nothing else.
\<close>

theorem system_dir_binds:
  assumes "isAbsolute (processCwd h)"
  shows "(sublist [''--ro-bind'', d, d] (bwrapArgs this h (workDirOf h options)) \<longleftrightarrow>
            (d \<in> set SYSTEM_DIRS \<and> existsSync h d)
            \<or> d \<in> set (readOnlySet this h (workDirOf h options)))
   \<and> bwrapArgs this h (workDirOf h options) =
       [''--die-with-parent'', ''--dev'', ''/dev'', ''--proc'', ''/proc'']
       @ (if network (config this) = Some False then [''--unshare-net''] else [])
       @ concat (map (\<lambda>d. [''--ro-bind'', d, d]) (filter (existsSync h) SYSTEM_DIRS))
       @ concat (map (\<lambda>p. [''--bind'', p, p]) (readWriteSet this h (workDirOf h options)))
       @ concat (map (\<lambda>p. [''--ro-bind'', p, p]) (readOnlySet this h (workDirOf h options)))"
proof (rule conjI)
  have "isAbsolute (workDirOf h options)"
    using assms by (rule isAbsolute_workDirOf)
  then show "sublist [''--ro-bind'', d, d] (bwrapArgs this h (workDirOf h options)) \<longleftrightarrow>
            (d \<in> set SYSTEM_DIRS \<and> existsSync h d)
            \<or> d \<in> set (readOnlySet this h (workDirOf h options))"
    by (simp add: sublist_ro_bwrapArgs)
qed (rule bwrapArgs_blocks)

text \<open>A host without \<open>/lib64\<close>, and no configured path of that name: no bind of it.\<close>

theorem system_dir_binds_witness:
  "\<not> sublist [''--ro-bind'', ''/lib64'', ''/lib64'']
      (bwrapArgs
        \<lparr>config = \<lparr>enabled = None, mode = None, network = None,
                   allowPaths = None, readOnlyPaths = Some [''/opt/tool'']\<rparr>,
         requirements = \<lparr>authPaths = [], binaryPaths = [], runtimePaths = []\<rparr>\<rparr>
        \<lparr>existsSync = (\<lambda>d. d \<in> set [''/usr'', ''/bin'', ''/lib'', ''/sbin'', ''/etc'', ''/opt'']),
         processCwd = ''/home/u''\<rparr>
        (workDirOf
           \<lparr>existsSync = (\<lambda>d. d \<in> set [''/usr'', ''/bin'', ''/lib'', ''/sbin'', ''/etc'', ''/opt'']),
            processCwd = ''/home/u''\<rparr>
           \<lparr>cwd = Some ''/proj''\<rparr>))
   \<and> bwrapArgs
        \<lparr>config = \<lparr>enabled = None, mode = None, network = None,
                   allowPaths = None, readOnlyPaths = Some [''/opt/tool'']\<rparr>,
         requirements = \<lparr>authPaths = [], binaryPaths = [], runtimePaths = []\<rparr>\<rparr>
        \<lparr>existsSync = (\<lambda>d. d \<in> set [''/usr'', ''/bin'', ''/lib'', ''/sbin'', ''/etc'', ''/opt'']),
         processCwd = ''/home/u''\<rparr>
        (workDirOf
           \<lparr>existsSync = (\<lambda>d. d \<in> set [''/usr'', ''/bin'', ''/lib'', ''/sbin'', ''/etc'', ''/opt'']),
            processCwd = ''/home/u''\<rparr>
           \<lparr>cwd = Some ''/proj''\<rparr>)
      = [''--die-with-parent'', ''--dev'', ''/dev'', ''--proc'', ''/proc'',
         ''--ro-bind'', ''/usr'', ''/usr'', ''--ro-bind'', ''/bin'', ''/bin'',
         ''--ro-bind'', ''/lib'', ''/lib'', ''--ro-bind'', ''/sbin'', ''/sbin'',
         ''--ro-bind'', ''/etc'', ''/etc'',
         ''--bind'', ''/proj'', ''/proj'', ''--ro-bind'', ''/opt/tool'', ''/opt/tool'']"
proof -
  let ?W = "\<lparr>config = \<lparr>enabled = None, mode = None, network = None,
                   allowPaths = None, readOnlyPaths = Some [''/opt/tool'']\<rparr>,
         requirements = \<lparr>authPaths = [], binaryPaths = [], runtimePaths = []\<rparr>\<rparr>"
  let ?H = "\<lparr>existsSync = (\<lambda>d. d \<in> set [''/usr'', ''/bin'', ''/lib'', ''/sbin'', ''/etc'', ''/opt'']),
         processCwd = ''/home/u''\<rparr>"
  let ?O = "\<lparr>cwd = Some ''/proj''\<rparr>"
  have a: "isAbsolute (processCwd ?H)" by simp
  have n: "\<not> ((''/lib64'' \<in> set SYSTEM_DIRS \<and> existsSync ?H ''/lib64'')
            \<or> ''/lib64'' \<in> set (readOnlySet ?W ?H (workDirOf ?H ?O)))"
    by code_simp
  have v: "bwrapArgs ?W ?H (workDirOf ?H ?O)
      = [''--die-with-parent'', ''--dev'', ''/dev'', ''--proc'', ''/proc'',
         ''--ro-bind'', ''/usr'', ''/usr'', ''--ro-bind'', ''/bin'', ''/bin'',
         ''--ro-bind'', ''/lib'', ''/lib'', ''--ro-bind'', ''/sbin'', ''/sbin'',
         ''--ro-bind'', ''/etc'', ''/etc'',
         ''--bind'', ''/proj'', ''/proj'', ''--ro-bind'', ''/opt/tool'', ''/opt/tool'']"
    by code_simp
  note t = system_dir_binds[OF a, where this = ?W and options = ?O and d = "''/lib64''"]
  from t[THEN conjunct1] n v show ?thesis by blast
qed

section \<open>The network flag\<close>

text \<open>
  Claim C5. For a wrapped call on a host whose \<open>process.cwd()\<close> is absolute, the options
  built by the wrapper (all that precedes the working-directory pin) hold
  \<open>--unshare-net\<close> exactly once when \<open>network\<close> is \<open>false\<close> and not at all when it is
  \<open>true\<close> or absent. The payload after the separator is the caller's and is copied as
  it is, so the whole vector holds the flag that many times plus the times it stands in
  the command and its arguments.
\<close>

theorem unshare_net_once:
  assumes "isAbsolute (processCwd h)"
    and "enabled (config this) \<noteq> Some False"
    and "mode (config this) \<in> {None, Some ''auto'', Some ''bwrap''}"
  shows "args (wrapCommand this h cmd as options) =
           bwrapArgs this h (workDirOf h options)
             @ [''--chdir'', workDirOf h options, ''--'', cmd] @ as
   \<and> count_list (bwrapArgs this h (workDirOf h options)) ''--unshare-net'' =
           (if network (config this) = Some False then 1 else 0)
   \<and> count_list (args (wrapCommand this h cmd as options)) ''--unshare-net'' =
           (if network (config this) = Some False then 1 else 0)
             + count_list (cmd # as) ''--unshare-net''"
proof -
  have wd: "isAbsolute (workDirOf h options)"
    using assms(1) by (rule isAbsolute_workDirOf)
  then have ne: "workDirOf h options \<noteq> ''--unshare-net''"
    by (rule absolute_not_flag)
  have a: "args (wrapCommand this h cmd as options) =
           bwrapArgs this h (workDirOf h options)
             @ [''--chdir'', workDirOf h options, ''--'', cmd] @ as"
    by (simp add: wrapCommand_wraps[OF assms(2,3)] args_wrapWithBwrap)
  have c: "count_list (bwrapArgs this h (workDirOf h options)) ''--unshare-net'' =
           (if network (config this) = Some False then 1 else 0)"
    using wd by (rule count_unshare_net_bwrapArgs)
  have "count_list (args (wrapCommand this h cmd as options)) ''--unshare-net'' =
           (if network (config this) = Some False then 1 else 0)
             + count_list (cmd # as) ''--unshare-net''"
    unfolding a using ne by (simp add: c)
  with a c show ?thesis by simp
qed

text \<open>\<open>network\<close> false, absent and true.\<close>

theorem unshare_net_once_witness:
  "count_list (args (wrapCommand
      \<lparr>config = \<lparr>enabled = None, mode = Some ''auto'', network = Some False,
                 allowPaths = Some [''./out''], readOnlyPaths = Some []\<rparr>,
       requirements = \<lparr>authPaths = [''/home/u/.creds''], binaryPaths = [], runtimePaths = []\<rparr>\<rparr>
      \<lparr>existsSync = (\<lambda>d. d \<in> set [''/usr'', ''/bin'', ''/etc'']), processCwd = ''/home/u''\<rparr>
      ''echo'' [''hi''] \<lparr>cwd = Some ''/proj''\<rparr>)) ''--unshare-net'' = 1
   \<and> count_list (args (wrapCommand
      \<lparr>config = \<lparr>enabled = None, mode = Some ''bwrap'', network = None,
                 allowPaths = Some [''./out''], readOnlyPaths = Some []\<rparr>,
       requirements = \<lparr>authPaths = [''/home/u/.creds''], binaryPaths = [], runtimePaths = []\<rparr>\<rparr>
      \<lparr>existsSync = (\<lambda>d. d \<in> set [''/usr'', ''/bin'', ''/etc'']), processCwd = ''/home/u''\<rparr>
      ''echo'' [''hi''] \<lparr>cwd = Some ''/proj''\<rparr>)) ''--unshare-net'' = 0
   \<and> count_list (args (wrapCommand
      \<lparr>config = \<lparr>enabled = Some True, mode = None, network = Some True,
                 allowPaths = None, readOnlyPaths = None\<rparr>,
       requirements = \<lparr>authPaths = [], binaryPaths = [], runtimePaths = []\<rparr>\<rparr>
      \<lparr>existsSync = (\<lambda>d. d \<in> set [''/usr'', ''/bin'', ''/etc'']), processCwd = ''/home/u''\<rparr>
      ''echo'' [''hi''] \<lparr>cwd = None\<rparr>)) ''--unshare-net'' = 0"
proof -
  let ?H = "\<lparr>existsSync = (\<lambda>d. d \<in> set [''/usr'', ''/bin'', ''/etc'']), processCwd = ''/home/u''\<rparr>"
  let ?W1 = "\<lparr>config = \<lparr>enabled = None, mode = Some ''auto'', network = Some False,
                 allowPaths = Some [''./out''], readOnlyPaths = Some []\<rparr>,
       requirements = \<lparr>authPaths = [''/home/u/.creds''], binaryPaths = [], runtimePaths = []\<rparr>\<rparr>"
  let ?W2 = "\<lparr>config = \<lparr>enabled = None, mode = Some ''bwrap'', network = None,
                 allowPaths = Some [''./out''], readOnlyPaths = Some []\<rparr>,
       requirements = \<lparr>authPaths = [''/home/u/.creds''], binaryPaths = [], runtimePaths = []\<rparr>\<rparr>"
  let ?W3 = "\<lparr>config = \<lparr>enabled = Some True, mode = None, network = Some True,
                 allowPaths = None, readOnlyPaths = None\<rparr>,
       requirements = \<lparr>authPaths = [], binaryPaths = [], runtimePaths = []\<rparr>\<rparr>"
  have a: "isAbsolute (processCwd ?H)" by simp
  have e1: "enabled (config ?W1) \<noteq> Some False"
    and m1: "mode (config ?W1) \<in> {None, Some ''auto'', Some ''bwrap''}" by simp_all
  have e2: "enabled (config ?W2) \<noteq> Some False"
    and m2: "mode (config ?W2) \<in> {None, Some ''auto'', Some ''bwrap''}" by simp_all
  have e3: "enabled (config ?W3) \<noteq> Some False"
    and m3: "mode (config ?W3) \<in> {None, Some ''auto'', Some ''bwrap''}" by simp_all
  have "count_list (args (wrapCommand ?W1 ?H ''echo'' [''hi''] \<lparr>cwd = Some ''/proj''\<rparr>))
          ''--unshare-net'' = 1"
    using unshare_net_once[OF a e1 m1, where cmd = "''echo''" and as = "[''hi'']"
        and options = "\<lparr>cwd = Some ''/proj''\<rparr>", THEN conjunct2, THEN conjunct2]
    by simp
  moreover have "count_list (args (wrapCommand ?W2 ?H ''echo'' [''hi''] \<lparr>cwd = Some ''/proj''\<rparr>))
          ''--unshare-net'' = 0"
    using unshare_net_once[OF a e2 m2, where cmd = "''echo''" and as = "[''hi'']"
        and options = "\<lparr>cwd = Some ''/proj''\<rparr>", THEN conjunct2, THEN conjunct2]
    by simp
  moreover have "count_list (args (wrapCommand ?W3 ?H ''echo'' [''hi''] \<lparr>cwd = None\<rparr>))
          ''--unshare-net'' = 0"
    using unshare_net_once[OF a e3 m3, where cmd = "''echo''" and as = "[''hi'']"
        and options = "\<lparr>cwd = None\<rparr>", THEN conjunct2, THEN conjunct2]
    by simp
  ultimately show ?thesis by blast
qed

section \<open>Paths are compared as strings\<close>

text \<open>
  Claim C9. An absolute entry goes through \<open>normalizePaths\<close> unchanged. An absolute
  entry \<open>p\<close> of \<open>allowPaths\<close> is bound writable, and an absolute entry \<open>q\<close> of
  \<open>readOnlyPaths\<close> is bound read-only as soon as \<open>q\<close> is not, as a string, the working
  directory or a normalized entry of \<open>allowPaths\<close>; whether \<open>p\<close> and \<open>q\<close> name the same
  directory plays no part.
\<close>

theorem paths_compared_as_strings:
  assumes "isAbsolute p" and "isAbsolute q"
    and "allowPaths (config this) = Some ap" and "p \<in> set ap"
    and "readOnlyPaths (config this) = Some rp" and "q \<in> set rp"
    and "q \<noteq> wd" and "q \<notin> set (normalizePaths h ap wd)"
  shows "normalizePaths h [p] wd = [p]
   \<and> p \<in> set (readWriteSet this h wd) \<and> q \<in> set (readOnlySet this h wd)
   \<and> sublist [''--bind'', p, p] (bwrapArgs this h wd)
   \<and> sublist [''--ro-bind'', q, q] (bwrapArgs this h wd)"
proof -
  have n: "normalizePaths h [p] wd = [p]"
    using assms(1) by (simp add: normalizePaths_def absolute_not_blank newSet_def setAdd_def)
  have p: "p \<in> set (readWriteSet this h wd)"
    using assms(1,3,4) by (simp add: readWriteSet_def set_newSet absolute_in_normalizePaths)
  have "q \<in> set (readOnlyCandidates this h wd)"
    using assms(2,5,6) by (simp add: readOnlyCandidates_def set_newSet absolute_in_normalizePaths)
  moreover have "q \<notin> set (readWriteSet this h wd)"
    using assms(3,7,8) by (simp add: readWriteSet_def set_newSet)
  ultimately have q: "q \<in> set (readOnlySet this h wd)"
    by (simp add: set_readOnlySet)
  have "sublist [''--bind'', p, p] (bwrapArgs this h wd @ [])"
    using p by (rule sublist_rw_bind)
  moreover have "sublist [''--ro-bind'', q, q] (bwrapArgs this h wd @ [])"
    using q by (rule sublist_ro_bind)
  ultimately show ?thesis using n p q by simp
qed

text \<open>
  \<open>/proj/out\<close> is bound writable while \<open>/proj/out/\<close> and \<open>/proj/x/../out\<close> are bound
  read-only.
\<close>

theorem paths_compared_as_strings_witness:
  "sublist [''--bind'', ''/proj/out'', ''/proj/out'']
     (bwrapArgs
        \<lparr>config = \<lparr>enabled = None, mode = None, network = None,
                   allowPaths = Some [''/proj/out''],
                   readOnlyPaths = Some [''/proj/out/'', ''/proj/x/../out'']\<rparr>,
         requirements = \<lparr>authPaths = [], binaryPaths = [], runtimePaths = []\<rparr>\<rparr>
        \<lparr>existsSync = (\<lambda>d. False), processCwd = ''/home/u''\<rparr> ''/proj'')
   \<and> sublist [''--ro-bind'', ''/proj/out/'', ''/proj/out/'']
     (bwrapArgs
        \<lparr>config = \<lparr>enabled = None, mode = None, network = None,
                   allowPaths = Some [''/proj/out''],
                   readOnlyPaths = Some [''/proj/out/'', ''/proj/x/../out'']\<rparr>,
         requirements = \<lparr>authPaths = [], binaryPaths = [], runtimePaths = []\<rparr>\<rparr>
        \<lparr>existsSync = (\<lambda>d. False), processCwd = ''/home/u''\<rparr> ''/proj'')
   \<and> bwrapArgs
        \<lparr>config = \<lparr>enabled = None, mode = None, network = None,
                   allowPaths = Some [''/proj/out''],
                   readOnlyPaths = Some [''/proj/out/'', ''/proj/x/../out'']\<rparr>,
         requirements = \<lparr>authPaths = [], binaryPaths = [], runtimePaths = []\<rparr>\<rparr>
        \<lparr>existsSync = (\<lambda>d. False), processCwd = ''/home/u''\<rparr> ''/proj''
     = [''--die-with-parent'', ''--dev'', ''/dev'', ''--proc'', ''/proc'',
        ''--bind'', ''/proj'', ''/proj'', ''--bind'', ''/proj/out'', ''/proj/out'',
        ''--ro-bind'', ''/proj/out/'', ''/proj/out/'',
        ''--ro-bind'', ''/proj/x/../out'', ''/proj/x/../out'']"
proof -
  let ?W = "\<lparr>config = \<lparr>enabled = None, mode = None, network = None,
                   allowPaths = Some [''/proj/out''],
                   readOnlyPaths = Some [''/proj/out/'', ''/proj/x/../out'']\<rparr>,
         requirements = \<lparr>authPaths = [], binaryPaths = [], runtimePaths = []\<rparr>\<rparr>"
  let ?H = "\<lparr>existsSync = (\<lambda>d. False), processCwd = ''/home/u''\<rparr>"
  have p: "isAbsolute ''/proj/out''" and q: "isAbsolute ''/proj/out/''" by simp_all
  have ap: "allowPaths (config ?W) = Some [''/proj/out'']"
    and rp: "readOnlyPaths (config ?W) = Some [''/proj/out/'', ''/proj/x/../out'']" by simp_all
  have pm: "''/proj/out'' \<in> set [''/proj/out'']"
    and qm: "''/proj/out/'' \<in> set [''/proj/out/'', ''/proj/x/../out'']" by simp_all
  have ne: "''/proj/out/'' \<noteq> ''/proj''" by simp
  have nm: "''/proj/out/'' \<notin> set (normalizePaths ?H [''/proj/out''] ''/proj'')" by code_simp
  have v: "bwrapArgs ?W ?H ''/proj''
     = [''--die-with-parent'', ''--dev'', ''/dev'', ''--proc'', ''/proc'',
        ''--bind'', ''/proj'', ''/proj'', ''--bind'', ''/proj/out'', ''/proj/out'',
        ''--ro-bind'', ''/proj/out/'', ''/proj/out/'',
        ''--ro-bind'', ''/proj/x/../out'', ''/proj/x/../out'']"
    by code_simp
  note t = paths_compared_as_strings[OF p q ap pm rp qm ne nm]
  from t[THEN conjunct2, THEN conjunct2, THEN conjunct2] v show ?thesis by blast
qed

section \<open>The working directory\<close>

text \<open>
  Claim C2, as stated, fails in its last part. The guarantee is one of path strings: a
  read-only entry that is another spelling of the working directory is a different
  string, stays in the read-only set, and is bound read-only after the writable bind of
  the working directory. Here the working directory is \<open>/proj\<close> and \<open>readOnlyPaths\<close>
  holds \<open>/proj/\<close>, which \<open>resolve\<close> maps to \<open>/proj\<close>.
\<close>

theorem workDir_read_only_counterexample:
  "workDirOf \<lparr>existsSync = (\<lambda>d. d = ''/usr''), processCwd = ''/home/u''\<rparr>
      \<lparr>cwd = Some ''/proj''\<rparr> = ''/proj''
   \<and> resolve \<lparr>existsSync = (\<lambda>d. d = ''/usr''), processCwd = ''/home/u''\<rparr> [''/proj/'']
       = ''/proj''
   \<and> args (wrapCommand
      \<lparr>config = \<lparr>enabled = None, mode = None, network = None,
                 allowPaths = None, readOnlyPaths = Some [''/proj/'']\<rparr>,
       requirements = \<lparr>authPaths = [], binaryPaths = [], runtimePaths = []\<rparr>\<rparr>
      \<lparr>existsSync = (\<lambda>d. d = ''/usr''), processCwd = ''/home/u''\<rparr>
      ''echo'' [''hi''] \<lparr>cwd = Some ''/proj''\<rparr>)
     = [''--die-with-parent'', ''--dev'', ''/dev'', ''--proc'', ''/proc'',
        ''--ro-bind'', ''/usr'', ''/usr'', ''--bind'', ''/proj'', ''/proj'',
        ''--ro-bind'', ''/proj/'', ''/proj/'', ''--chdir'', ''/proj'', ''--'',
        ''echo'', ''hi'']"
  by code_simp

text \<open>
  Claim C2, amended. With an absolute \<open>process.cwd()\<close>, the resolved working directory
  (\<open>resolve\<close> of \<open>options.cwd\<close>, or of \<open>process.cwd()\<close> when \<open>options.cwd\<close> is absent) is
  a member of the read-write set and not of the read-only set, whatever \<open>readOnlyPaths\<close>
  and the requirement lists hold. Its writable bind stands directly after the
  system-directory binds, and no read-only bind of the same string follows it among the
  options; a read-only bind of the same string stands among the options exactly when the
  working directory is one of the fixed system directories and exists on the host. The
  returned vector is these options, the pin and the payload.
\<close>

theorem workDir_always_read_write:
  assumes "isAbsolute (processCwd h)"
  shows "workDirOf h options \<in> set (readWriteSet this h (workDirOf h options))
   \<and> workDirOf h options \<notin> set (readOnlySet this h (workDirOf h options))
   \<and> sublist [''--bind'', workDirOf h options, workDirOf h options]
       (args (wrapWithBwrap this h cmd as options))
   \<and> args (wrapWithBwrap this h cmd as options) =
       bwrapArgs this h (workDirOf h options)
         @ [''--chdir'', workDirOf h options, ''--'', cmd] @ as
   \<and> (\<exists>post. bwrapArgs this h (workDirOf h options) =
           [''--die-with-parent'', ''--dev'', ''/dev'', ''--proc'', ''/proc'']
             @ (if network (config this) = Some False then [''--unshare-net''] else [])
             @ concat (map (\<lambda>d. [''--ro-bind'', d, d]) (filter (existsSync h) SYSTEM_DIRS))
             @ [''--bind'', workDirOf h options, workDirOf h options] @ post
         \<and> \<not> sublist [''--ro-bind'', workDirOf h options, workDirOf h options] post)
   \<and> (sublist [''--ro-bind'', workDirOf h options, workDirOf h options]
         (bwrapArgs this h (workDirOf h options))
       \<longleftrightarrow> workDirOf h options \<in> set SYSTEM_DIRS \<and> existsSync h (workDirOf h options))"
proof (intro conjI)
  have wd: "isAbsolute (workDirOf h options)"
    using assms by (rule isAbsolute_workDirOf)
  show m: "workDirOf h options \<in> set (readWriteSet this h (workDirOf h options))"
    by (rule workDir_in_readWriteSet)
  then show n: "workDirOf h options \<notin> set (readOnlySet this h (workDirOf h options))"
    by (simp add: set_readOnlySet)
  show "sublist [''--bind'', workDirOf h options, workDirOf h options]
       (args (wrapWithBwrap this h cmd as options))"
    unfolding args_wrapWithBwrap by (rule sublist_rw_bind) (rule workDir_in_readWriteSet)
  show "args (wrapWithBwrap this h cmd as options) =
       bwrapArgs this h (workDirOf h options)
         @ [''--chdir'', workDirOf h options, ''--'', cmd] @ as"
    by (rule args_wrapWithBwrap)
  show "\<exists>post. bwrapArgs this h (workDirOf h options) =
           [''--die-with-parent'', ''--dev'', ''/dev'', ''--proc'', ''/proc'']
             @ (if network (config this) = Some False then [''--unshare-net''] else [])
             @ concat (map (\<lambda>d. [''--ro-bind'', d, d]) (filter (existsSync h) SYSTEM_DIRS))
             @ [''--bind'', workDirOf h options, workDirOf h options] @ post
         \<and> \<not> sublist [''--ro-bind'', workDirOf h options, workDirOf h options] post"
    using wd by (rule workDir_bind_position)
  show "sublist [''--ro-bind'', workDirOf h options, workDirOf h options]
         (bwrapArgs this h (workDirOf h options))
       \<longleftrightarrow> workDirOf h options \<in> set SYSTEM_DIRS \<and> existsSync h (workDirOf h options)"
    using n by (simp add: sublist_ro_bwrapArgs[OF wd])
qed

text \<open>
  The working directory \<open>/etc\<close> is an existing system directory and is listed read-only
  three times over (as itself, as \<open>.\<close> and by the agent): its one read-only bind is the
  one of the system-directory step, and its writable bind is the last bind.
\<close>

theorem workDir_always_read_write_witness:
  "bwrapArgs
      \<lparr>config = \<lparr>enabled = None, mode = None, network = None,
                 allowPaths = None, readOnlyPaths = Some [''/etc'', ''.'']\<rparr>,
       requirements = \<lparr>authPaths = [''/etc''], binaryPaths = [], runtimePaths = ['''']\<rparr>\<rparr>
      \<lparr>existsSync = (\<lambda>d. d \<in> set [''/usr'', ''/etc'']), processCwd = ''/home/u''\<rparr>
      ''/etc''
     = [''--die-with-parent'', ''--dev'', ''/dev'', ''--proc'', ''/proc'']
       @ [''--ro-bind'', ''/usr'', ''/usr'', ''--ro-bind'', ''/etc'', ''/etc'']
       @ [''--bind'', ''/etc'', ''/etc'']
   \<and> sublist [''--ro-bind'', ''/etc'', ''/etc'']
       (bwrapArgs
      \<lparr>config = \<lparr>enabled = None, mode = None, network = None,
                 allowPaths = None, readOnlyPaths = Some [''/etc'', ''.'']\<rparr>,
       requirements = \<lparr>authPaths = [''/etc''], binaryPaths = [], runtimePaths = ['''']\<rparr>\<rparr>
      \<lparr>existsSync = (\<lambda>d. d \<in> set [''/usr'', ''/etc'']), processCwd = ''/home/u''\<rparr>
      ''/etc'')
   \<and> ''/etc'' \<notin> set (readOnlySet
      \<lparr>config = \<lparr>enabled = None, mode = None, network = None,
                 allowPaths = None, readOnlyPaths = Some [''/etc'', ''.'']\<rparr>,
       requirements = \<lparr>authPaths = [''/etc''], binaryPaths = [], runtimePaths = ['''']\<rparr>\<rparr>
      \<lparr>existsSync = (\<lambda>d. d \<in> set [''/usr'', ''/etc'']), processCwd = ''/home/u''\<rparr>
      ''/etc'')
   \<and> args (wrapWithBwrap
      \<lparr>config = \<lparr>enabled = None, mode = None, network = None,
                 allowPaths = None, readOnlyPaths = Some [''/etc'', ''.'']\<rparr>,
       requirements = \<lparr>authPaths = [''/etc''], binaryPaths = [], runtimePaths = ['''']\<rparr>\<rparr>
      \<lparr>existsSync = (\<lambda>d. d \<in> set [''/usr'', ''/etc'']), processCwd = ''/home/u''\<rparr>
      ''echo'' [] \<lparr>cwd = Some ''/etc''\<rparr>)
     = [''--die-with-parent'', ''--dev'', ''/dev'', ''--proc'', ''/proc'',
        ''--ro-bind'', ''/usr'', ''/usr'', ''--ro-bind'', ''/etc'', ''/etc'',
        ''--bind'', ''/etc'', ''/etc'', ''--chdir'', ''/etc'', ''--'', ''echo'']"
proof -
  let ?W = "\<lparr>config = \<lparr>enabled = None, mode = None, network = None,
                 allowPaths = None, readOnlyPaths = Some [''/etc'', ''.'']\<rparr>,
       requirements = \<lparr>authPaths = [''/etc''], binaryPaths = [], runtimePaths = ['''']\<rparr>\<rparr>"
  let ?H = "\<lparr>existsSync = (\<lambda>d. d \<in> set [''/usr'', ''/etc'']), processCwd = ''/home/u''\<rparr>"
  let ?O = "\<lparr>cwd = Some ''/etc''\<rparr>"
  have a: "isAbsolute (processCwd ?H)" by simp
  have w: "workDirOf ?H ?O = ''/etc''" by code_simp
  have s: "''/etc'' \<in> set SYSTEM_DIRS \<and> existsSync ?H ''/etc''" by code_simp
  have v: "bwrapArgs ?W ?H ''/etc''
     = [''--die-with-parent'', ''--dev'', ''/dev'', ''--proc'', ''/proc'']
       @ [''--ro-bind'', ''/usr'', ''/usr'', ''--ro-bind'', ''/etc'', ''/etc'']
       @ [''--bind'', ''/etc'', ''/etc'']"
    by code_simp
  note t = workDir_always_read_write[OF a, where this = ?W and options = ?O
      and cmd = "''echo''" and as = "[]", unfolded w]
  have ro: "sublist [''--ro-bind'', ''/etc'', ''/etc''] (bwrapArgs ?W ?H ''/etc'')"
    using t[THEN conjunct2, THEN conjunct2, THEN conjunct2, THEN conjunct2, THEN conjunct2] s
    by blast
  have n: "''/etc'' \<notin> set (readOnlySet ?W ?H ''/etc'')"
    using t[THEN conjunct2, THEN conjunct1] .
  have ar: "args (wrapWithBwrap ?W ?H ''echo'' [] ?O)
     = [''--die-with-parent'', ''--dev'', ''/dev'', ''--proc'', ''/proc'',
        ''--ro-bind'', ''/usr'', ''/usr'', ''--ro-bind'', ''/etc'', ''/etc'',
        ''--bind'', ''/etc'', ''/etc'', ''--chdir'', ''/etc'', ''--'', ''echo'']"
    using t[THEN conjunct2, THEN conjunct2, THEN conjunct2, THEN conjunct1] v by simp
  from v ro n ar show ?thesis by blast
qed

section \<open>Read-write precedence\<close>

text \<open>
  Claim C1, as stated, fails on a path that is also an existing system directory: with
  \<open>/etc\<close> in both \<open>allowPaths\<close> and \<open>readOnlyPaths\<close> on a host that has \<open>/etc\<close>, the
  vector holds \<open>--ro-bind /etc /etc\<close> (from the system-directory step) before
  \<open>--bind /etc /etc\<close>.
\<close>

theorem read_only_bind_of_read_write_path_counterexample:
  "''/etc'' \<in> set (readWriteSet
      \<lparr>config = \<lparr>enabled = None, mode = None, network = None,
                 allowPaths = Some [''/etc''], readOnlyPaths = Some [''/etc'']\<rparr>,
       requirements = \<lparr>authPaths = [], binaryPaths = [], runtimePaths = []\<rparr>\<rparr>
      \<lparr>existsSync = (\<lambda>d. d \<in> set [''/usr'', ''/bin'', ''/etc'']), processCwd = ''/home/u''\<rparr>
      ''/proj'')
   \<and> ''/etc'' \<in> set (readOnlyCandidates
      \<lparr>config = \<lparr>enabled = None, mode = None, network = None,
                 allowPaths = Some [''/etc''], readOnlyPaths = Some [''/etc'']\<rparr>,
       requirements = \<lparr>authPaths = [], binaryPaths = [], runtimePaths = []\<rparr>\<rparr>
      \<lparr>existsSync = (\<lambda>d. d \<in> set [''/usr'', ''/bin'', ''/etc'']), processCwd = ''/home/u''\<rparr>
      ''/proj'')
   \<and> sublist [''--ro-bind'', ''/etc'', ''/etc'']
      (args (wrapCommand
        \<lparr>config = \<lparr>enabled = None, mode = None, network = None,
                   allowPaths = Some [''/etc''], readOnlyPaths = Some [''/etc'']\<rparr>,
         requirements = \<lparr>authPaths = [], binaryPaths = [], runtimePaths = []\<rparr>\<rparr>
        \<lparr>existsSync = (\<lambda>d. d \<in> set [''/usr'', ''/bin'', ''/etc'']), processCwd = ''/home/u''\<rparr>
        ''echo'' [''hi''] \<lparr>cwd = Some ''/proj''\<rparr>))
   \<and> args (wrapCommand
        \<lparr>config = \<lparr>enabled = None, mode = None, network = None,
                   allowPaths = Some [''/etc''], readOnlyPaths = Some [''/etc'']\<rparr>,
         requirements = \<lparr>authPaths = [], binaryPaths = [], runtimePaths = []\<rparr>\<rparr>
        \<lparr>existsSync = (\<lambda>d. d \<in> set [''/usr'', ''/bin'', ''/etc'']), processCwd = ''/home/u''\<rparr>
        ''echo'' [''hi''] \<lparr>cwd = Some ''/proj''\<rparr>)
      = [''--die-with-parent'', ''--dev'', ''/dev'', ''--proc'', ''/proc'',
         ''--ro-bind'', ''/usr'', ''/usr'', ''--ro-bind'', ''/bin'', ''/bin'',
         ''--ro-bind'', ''/etc'', ''/etc'',
         ''--bind'', ''/proj'', ''/proj'', ''--bind'', ''/etc'', ''/etc'',
         ''--chdir'', ''/proj'', ''--'', ''echo'', ''hi'']"
  by code_simp

text \<open>
  Claim C1, amended. With an absolute \<open>process.cwd()\<close>, the resolved read-write and
  read-only sets are disjoint. Every path that is both in the read-write set and among
  the read-only candidates has its writable bind among the options that precede the
  working-directory pin, and has a read-only bind there exactly when it is one of the
  fixed system directories and exists on the host. The order is fixed: the options split
  at the writable bind of the path, no read-only bind of the path comes after it, and the
  read-only bind of an existing system directory comes before it.
\<close>

theorem read_write_precedence:
  assumes "isAbsolute (processCwd h)"
  shows "set (readWriteSet this h (workDirOf h options))
           \<inter> set (readOnlySet this h (workDirOf h options)) = {}
   \<and> (\<forall>p \<in> set (readWriteSet this h (workDirOf h options))
             \<inter> set (readOnlyCandidates this h (workDirOf h options)).
        sublist [''--bind'', p, p] (bwrapArgs this h (workDirOf h options))
        \<and> (sublist [''--ro-bind'', p, p] (bwrapArgs this h (workDirOf h options))
             \<longleftrightarrow> p \<in> set SYSTEM_DIRS \<and> existsSync h p)
        \<and> (\<exists>pre post.
              bwrapArgs this h (workDirOf h options) = pre @ [''--bind'', p, p] @ post
              \<and> \<not> sublist [''--ro-bind'', p, p] post
              \<and> (sublist [''--ro-bind'', p, p] pre
                    \<longleftrightarrow> p \<in> set SYSTEM_DIRS \<and> existsSync h p)))"
proof (intro conjI ballI)
  show "set (readWriteSet this h (workDirOf h options))
           \<inter> set (readOnlySet this h (workDirOf h options)) = {}"
    by (auto simp: set_readOnlySet)
next
  fix p
  assume p: "p \<in> set (readWriteSet this h (workDirOf h options))
             \<inter> set (readOnlyCandidates this h (workDirOf h options))"
  have wd: "isAbsolute (workDirOf h options)"
    using assms by (rule isAbsolute_workDirOf)
  from p have rw: "p \<in> set (readWriteSet this h (workDirOf h options))"
    by simp
  from rw show "sublist [''--bind'', p, p] (bwrapArgs this h (workDirOf h options))"
    by (simp add: sublist_rw_bwrapArgs[OF wd])
  from rw have "p \<notin> set (readOnlySet this h (workDirOf h options))"
    by (simp add: set_readOnlySet)
  then show "sublist [''--ro-bind'', p, p] (bwrapArgs this h (workDirOf h options))
             \<longleftrightarrow> p \<in> set SYSTEM_DIRS \<and> existsSync h p"
    by (simp add: sublist_ro_bwrapArgs[OF wd])
  show "\<exists>pre post.
          bwrapArgs this h (workDirOf h options) = pre @ [''--bind'', p, p] @ post
          \<and> \<not> sublist [''--ro-bind'', p, p] post
          \<and> (sublist [''--ro-bind'', p, p] pre \<longleftrightarrow> p \<in> set SYSTEM_DIRS \<and> existsSync h p)"
    using wd rw by (rule rw_bind_position)
qed

text \<open>
  \<open>/etc\<close> is allowed, required read-only by the agent, and an existing system directory:
  its read-only bind comes from the system-directory step and stands before its writable
  bind. \<open>/proj/data\<close> is allowed (as the relative \<open>data\<close>) and listed read-only: it is
  bound writable only.
\<close>

theorem read_write_precedence_witness:
  "set (readWriteSet
      \<lparr>config = \<lparr>enabled = None, mode = None, network = None,
                 allowPaths = Some [''data'', ''/etc''], readOnlyPaths = Some [''/proj/data'']\<rparr>,
       requirements = \<lparr>authPaths = [''/etc''], binaryPaths = [], runtimePaths = []\<rparr>\<rparr>
      \<lparr>existsSync = (\<lambda>d. d \<in> set [''/usr'', ''/etc'']), processCwd = ''/proj''\<rparr>
      (workDirOf
         \<lparr>existsSync = (\<lambda>d. d \<in> set [''/usr'', ''/etc'']), processCwd = ''/proj''\<rparr>
         \<lparr>cwd = None\<rparr>))
     \<inter> set (readOnlySet
      \<lparr>config = \<lparr>enabled = None, mode = None, network = None,
                 allowPaths = Some [''data'', ''/etc''], readOnlyPaths = Some [''/proj/data'']\<rparr>,
       requirements = \<lparr>authPaths = [''/etc''], binaryPaths = [], runtimePaths = []\<rparr>\<rparr>
      \<lparr>existsSync = (\<lambda>d. d \<in> set [''/usr'', ''/etc'']), processCwd = ''/proj''\<rparr>
      (workDirOf
         \<lparr>existsSync = (\<lambda>d. d \<in> set [''/usr'', ''/etc'']), processCwd = ''/proj''\<rparr>
         \<lparr>cwd = None\<rparr>)) = {}
   \<and> sublist [''--bind'', ''/proj/data'', ''/proj/data'']
       (bwrapArgs
      \<lparr>config = \<lparr>enabled = None, mode = None, network = None,
                 allowPaths = Some [''data'', ''/etc''], readOnlyPaths = Some [''/proj/data'']\<rparr>,
       requirements = \<lparr>authPaths = [''/etc''], binaryPaths = [], runtimePaths = []\<rparr>\<rparr>
      \<lparr>existsSync = (\<lambda>d. d \<in> set [''/usr'', ''/etc'']), processCwd = ''/proj''\<rparr>
      (workDirOf
         \<lparr>existsSync = (\<lambda>d. d \<in> set [''/usr'', ''/etc'']), processCwd = ''/proj''\<rparr>
         \<lparr>cwd = None\<rparr>))
   \<and> \<not> sublist [''--ro-bind'', ''/proj/data'', ''/proj/data'']
       (bwrapArgs
      \<lparr>config = \<lparr>enabled = None, mode = None, network = None,
                 allowPaths = Some [''data'', ''/etc''], readOnlyPaths = Some [''/proj/data'']\<rparr>,
       requirements = \<lparr>authPaths = [''/etc''], binaryPaths = [], runtimePaths = []\<rparr>\<rparr>
      \<lparr>existsSync = (\<lambda>d. d \<in> set [''/usr'', ''/etc'']), processCwd = ''/proj''\<rparr>
      (workDirOf
         \<lparr>existsSync = (\<lambda>d. d \<in> set [''/usr'', ''/etc'']), processCwd = ''/proj''\<rparr>
         \<lparr>cwd = None\<rparr>))
   \<and> (\<exists>pre post.
        bwrapArgs
          \<lparr>config = \<lparr>enabled = None, mode = None, network = None,
                     allowPaths = Some [''data'', ''/etc''], readOnlyPaths = Some [''/proj/data'']\<rparr>,
           requirements = \<lparr>authPaths = [''/etc''], binaryPaths = [], runtimePaths = []\<rparr>\<rparr>
          \<lparr>existsSync = (\<lambda>d. d \<in> set [''/usr'', ''/etc'']), processCwd = ''/proj''\<rparr>
          (workDirOf
             \<lparr>existsSync = (\<lambda>d. d \<in> set [''/usr'', ''/etc'']), processCwd = ''/proj''\<rparr>
             \<lparr>cwd = None\<rparr>)
          = pre @ [''--bind'', ''/etc'', ''/etc''] @ post
        \<and> \<not> sublist [''--ro-bind'', ''/etc'', ''/etc''] post
        \<and> sublist [''--ro-bind'', ''/etc'', ''/etc''] pre)
   \<and> bwrapArgs
      \<lparr>config = \<lparr>enabled = None, mode = None, network = None,
                 allowPaths = Some [''data'', ''/etc''], readOnlyPaths = Some [''/proj/data'']\<rparr>,
       requirements = \<lparr>authPaths = [''/etc''], binaryPaths = [], runtimePaths = []\<rparr>\<rparr>
      \<lparr>existsSync = (\<lambda>d. d \<in> set [''/usr'', ''/etc'']), processCwd = ''/proj''\<rparr>
      (workDirOf
         \<lparr>existsSync = (\<lambda>d. d \<in> set [''/usr'', ''/etc'']), processCwd = ''/proj''\<rparr>
         \<lparr>cwd = None\<rparr>)
     = [''--die-with-parent'', ''--dev'', ''/dev'', ''--proc'', ''/proc'',
        ''--ro-bind'', ''/usr'', ''/usr'', ''--ro-bind'', ''/etc'', ''/etc'',
        ''--bind'', ''/proj'', ''/proj'', ''--bind'', ''/proj/data'', ''/proj/data'',
        ''--bind'', ''/etc'', ''/etc'']"
proof -
  let ?W = "\<lparr>config = \<lparr>enabled = None, mode = None, network = None,
                 allowPaths = Some [''data'', ''/etc''], readOnlyPaths = Some [''/proj/data'']\<rparr>,
       requirements = \<lparr>authPaths = [''/etc''], binaryPaths = [], runtimePaths = []\<rparr>\<rparr>"
  let ?H = "\<lparr>existsSync = (\<lambda>d. d \<in> set [''/usr'', ''/etc'']), processCwd = ''/proj''\<rparr>"
  let ?O = "\<lparr>cwd = None\<rparr>"
  have a: "isAbsolute (processCwd ?H)" by simp
  have m: "''/proj/data'' \<in> set (readWriteSet ?W ?H (workDirOf ?H ?O))
             \<inter> set (readOnlyCandidates ?W ?H (workDirOf ?H ?O))"
    by code_simp
  have m': "''/etc'' \<in> set (readWriteSet ?W ?H (workDirOf ?H ?O))
             \<inter> set (readOnlyCandidates ?W ?H (workDirOf ?H ?O))"
    by code_simp
  have n: "\<not> (''/proj/data'' \<in> set SYSTEM_DIRS \<and> existsSync ?H ''/proj/data'')"
    by code_simp
  have n': "''/etc'' \<in> set SYSTEM_DIRS \<and> existsSync ?H ''/etc''"
    by code_simp
  have v: "bwrapArgs ?W ?H (workDirOf ?H ?O)
     = [''--die-with-parent'', ''--dev'', ''/dev'', ''--proc'', ''/proc'',
        ''--ro-bind'', ''/usr'', ''/usr'', ''--ro-bind'', ''/etc'', ''/etc'',
        ''--bind'', ''/proj'', ''/proj'', ''--bind'', ''/proj/data'', ''/proj/data'',
        ''--bind'', ''/etc'', ''/etc'']"
    by code_simp
  note t = read_write_precedence[OF a, where this = ?W and options = ?O]
  note b = t[THEN conjunct2, rule_format, OF m]
  note b' = t[THEN conjunct2, rule_format, OF m']
  have e: "\<exists>pre post. bwrapArgs ?W ?H (workDirOf ?H ?O) = pre @ [''--bind'', ''/etc'', ''/etc''] @ post
        \<and> \<not> sublist [''--ro-bind'', ''/etc'', ''/etc''] post
        \<and> sublist [''--ro-bind'', ''/etc'', ''/etc''] pre"
    using b'[THEN conjunct2, THEN conjunct2] n' by blast
  from t[THEN conjunct1] b[THEN conjunct1] b[THEN conjunct2, THEN conjunct1] n e v
  show ?thesis by blast
qed

section \<open>Path normalization\<close>

text \<open>
  Claim C7, as stated, fails in its last part: a path can yield two binds. With
  \<open>/usr\<close> in \<open>readOnlyPaths\<close> on a host that has \<open>/usr\<close>, the normalized list holds
  \<open>/usr\<close> once, and the vector holds \<open>--ro-bind /usr /usr\<close> twice: once from the
  system-directory step and once from the resolved read-only set.
\<close>

theorem one_bind_per_path_counterexample:
  "normalizePaths \<lparr>existsSync = (\<lambda>d. d = ''/usr''), processCwd = ''/home/u''\<rparr>
      [''/usr''] ''/proj'' = [''/usr'']
   \<and> args (wrapCommand
      \<lparr>config = \<lparr>enabled = None, mode = None, network = None,
                 allowPaths = None, readOnlyPaths = Some [''/usr'']\<rparr>,
       requirements = \<lparr>authPaths = [], binaryPaths = [], runtimePaths = []\<rparr>\<rparr>
      \<lparr>existsSync = (\<lambda>d. d = ''/usr''), processCwd = ''/home/u''\<rparr>
      ''echo'' [''hi''] \<lparr>cwd = Some ''/proj''\<rparr>)
     = [''--die-with-parent'', ''--dev'', ''/dev'', ''--proc'', ''/proc'',
        ''--ro-bind'', ''/usr'', ''/usr'', ''--bind'', ''/proj'', ''/proj'',
        ''--ro-bind'', ''/usr'', ''/usr'', ''--chdir'', ''/proj'', ''--'',
        ''echo'', ''hi'']"
  by code_simp

text \<open>
  Claim C7, amended. The result of \<open>normalizePaths\<close> has no duplicates. Its elements are
  the entries that are not made of white space only, an absolute entry as it is and any
  other entry resolved against the directory passed in. When that directory is absolute,
  a relative entry resolves to the normalized form of the directory, a slash and the
  entry, and the ambient \<open>process.cwd()\<close> has no influence on the result.

  The directory passed in by \<open>wrapWithBwrap\<close> is the working directory: the normalized
  \<open>options.cwd\<close> when that is absolute (the ambient directory then has no influence), and
  the normalized form of \<open>process.cwd()\<close>, a slash and \<open>options.cwd\<close> when it is
  relative.

  The read-write set is the working directory and the normalized \<open>allowPaths\<close>; the
  read-only set is the normalized \<open>readOnlyPaths\<close> and requirement paths without the
  read-write set. The two sets together hold no path twice, and the options are the seed,
  the network flag, one read-only bind for each existing system directory (no directory
  twice), one writable bind for each element of the read-write set and one read-only bind
  for each element of the read-only set: a path yields at most one bind from the resolved
  sets, and the binds of the system-directory step are apart from those.
\<close>

theorem normalizePaths_rules:
  "distinct (normalizePaths h paths dir)
   \<and> set (normalizePaths h paths dir) =
       (\<lambda>p. if isAbsolute p then p else resolve h [dir, p])
         ` {p \<in> set paths. \<not> (\<forall>c\<in>set p. isWhiteSpace c)}
   \<and> (isAbsolute dir \<longrightarrow>
        (\<forall>p. p \<noteq> [] \<and> \<not> isAbsolute p \<longrightarrow>
           resolve h [dir, p] = CHR ''/'' # normalizeString (dir @ CHR ''/'' # p @ ''/'') False)
        \<and> normalizePaths h paths dir = normalizePaths (h\<lparr>processCwd := ambient\<rparr>) paths dir)
   \<and> (\<forall>c. cwd options = Some c \<and> isAbsolute c \<longrightarrow>
        workDirOf h options = CHR ''/'' # normalizeString (c @ ''/'') False
        \<and> workDirOf h options = workDirOf (h\<lparr>processCwd := ambient\<rparr>) options)
   \<and> (\<forall>c. cwd options = Some c \<and> c \<noteq> [] \<and> \<not> isAbsolute c \<and> isAbsolute (processCwd h) \<longrightarrow>
        workDirOf h options =
          CHR ''/'' # normalizeString (processCwd h @ CHR ''/'' # c @ ''/'') False)
   \<and> set (readWriteSet this h wd) =
       insert wd (set (normalizePaths h
          (case allowPaths (config this) of None \<Rightarrow> [] | Some ps \<Rightarrow> ps) wd))
   \<and> set (readOnlySet this h wd) =
       (set (normalizePaths h
          (case readOnlyPaths (config this) of None \<Rightarrow> [] | Some ps \<Rightarrow> ps) wd)
        \<union> set (normalizePaths h (getRequirementPaths this) wd))
       - set (readWriteSet this h wd)
   \<and> distinct (readWriteSet this h wd @ readOnlySet this h wd)
   \<and> distinct (filter (existsSync h) SYSTEM_DIRS)
   \<and> bwrapArgs this h wd =
       [''--die-with-parent'', ''--dev'', ''/dev'', ''--proc'', ''/proc'']
       @ (if network (config this) = Some False then [''--unshare-net''] else [])
       @ concat (map (\<lambda>d. [''--ro-bind'', d, d]) (filter (existsSync h) SYSTEM_DIRS))
       @ concat (map (\<lambda>p. [''--bind'', p, p]) (readWriteSet this h wd))
       @ concat (map (\<lambda>p. [''--ro-bind'', p, p]) (readOnlySet this h wd))
   \<and> args (wrapWithBwrap this h cmd as options) =
       bwrapArgs this h (workDirOf h options)
         @ [''--chdir'', workDirOf h options, ''--'', cmd] @ as"
proof (intro conjI impI allI)
  show "distinct (normalizePaths h paths dir)"
    by (rule distinct_normalizePaths)
  show "set (normalizePaths h paths dir) =
       (\<lambda>p. if isAbsolute p then p else resolve h [dir, p])
         ` {p \<in> set paths. \<not> (\<forall>c\<in>set p. isWhiteSpace c)}"
    by (simp add: set_normalizePaths trim_empty_iff)
  show "set (readWriteSet this h wd) =
       insert wd (set (normalizePaths h
          (case allowPaths (config this) of None \<Rightarrow> [] | Some ps \<Rightarrow> ps) wd))"
    by (rule set_readWriteSet)
  show "set (readOnlySet this h wd) =
       (set (normalizePaths h
          (case readOnlyPaths (config this) of None \<Rightarrow> [] | Some ps \<Rightarrow> ps) wd)
        \<union> set (normalizePaths h (getRequirementPaths this) wd))
       - set (readWriteSet this h wd)"
    by (simp only: set_readOnlySet set_readOnlyCandidates)
  show "distinct (readWriteSet this h wd @ readOnlySet this h wd)"
    by (rule distinct_resolved_sets)
  show "distinct (filter (existsSync h) SYSTEM_DIRS)"
    by (rule distinct_filter) (simp add: SYSTEM_DIRS_def)
  show "bwrapArgs this h wd =
       [''--die-with-parent'', ''--dev'', ''/dev'', ''--proc'', ''/proc'']
       @ (if network (config this) = Some False then [''--unshare-net''] else [])
       @ concat (map (\<lambda>d. [''--ro-bind'', d, d]) (filter (existsSync h) SYSTEM_DIRS))
       @ concat (map (\<lambda>p. [''--bind'', p, p]) (readWriteSet this h wd))
       @ concat (map (\<lambda>p. [''--ro-bind'', p, p]) (readOnlySet this h wd))"
    by (rule bwrapArgs_blocks)
  show "args (wrapWithBwrap this h cmd as options) =
       bwrapArgs this h (workDirOf h options)
         @ [''--chdir'', workDirOf h options, ''--'', cmd] @ as"
    by (rule args_wrapWithBwrap)
next
  fix p
  assume "isAbsolute dir" and "p \<noteq> [] \<and> \<not> isAbsolute p"
  then show "resolve h [dir, p] = CHR ''/'' # normalizeString (dir @ CHR ''/'' # p @ ''/'') False"
    by (simp add: resolve_relative)
next
  assume "isAbsolute dir"
  then show "normalizePaths h paths dir = normalizePaths (h\<lparr>processCwd := ambient\<rparr>) paths dir"
    by (rule normalizePaths_host_irrelevant)
next
  fix c
  assume c: "cwd options = Some c \<and> isAbsolute c"
  then show "workDirOf h options = CHR ''/'' # normalizeString (c @ ''/'') False"
    by (simp add: workDirOf_absolute_cwd)
  from c show "workDirOf h options = workDirOf (h\<lparr>processCwd := ambient\<rparr>) options"
    by (auto simp: workDirOf_def intro: resolve_host_irrelevant)
next
  fix c
  assume "cwd options = Some c \<and> c \<noteq> [] \<and> \<not> isAbsolute c \<and> isAbsolute (processCwd h)"
  then show "workDirOf h options =
          CHR ''/'' # normalizeString (processCwd h @ CHR ''/'' # c @ ''/'') False"
    by (simp add: workDirOf_relative_cwd)
qed

text \<open>
  Absolute entries kept (also \<open>/a/\<close>, with its slash), blank entries dropped, relative
  entries resolved against \<open>/proj\<close> and not against \<open>/home/u\<close>, duplicates collapsed. With
  the relative \<open>options.cwd = 'sub'\<close> the working directory is \<open>/home/u/sub\<close>, and the
  relative entry \<open>out\<close>, allowed and listed read-only, gets its one writable bind there.
\<close>

theorem normalizePaths_rules_witness:
  "distinct (normalizePaths \<lparr>existsSync = (\<lambda>d. True), processCwd = ''/home/u''\<rparr>
       [''/a'', ''  '', '''', ''b'', ''/a'', ''./b'', ''/a/'', ''../c'', '' d''] ''/proj'')
   \<and> normalizePaths \<lparr>existsSync = (\<lambda>d. True), processCwd = ''/home/u''\<rparr>
       [''/a'', ''  '', '''', ''b'', ''/a'', ''./b'', ''/a/'', ''../c'', '' d''] ''/proj''
     = normalizePaths
         (\<lparr>existsSync = (\<lambda>d. True), processCwd = ''/home/u''\<rparr>\<lparr>processCwd := ''/elsewhere''\<rparr>)
         [''/a'', ''  '', '''', ''b'', ''/a'', ''./b'', ''/a/'', ''../c'', '' d''] ''/proj''
   \<and> normalizePaths \<lparr>existsSync = (\<lambda>d. True), processCwd = ''/home/u''\<rparr>
       [''/a'', ''  '', '''', ''b'', ''/a'', ''./b'', ''/a/'', ''../c'', '' d''] ''/proj''
     = [''/a'', ''/proj/b'', ''/a/'', ''/c'', ''/proj/ d'']
   \<and> workDirOf \<lparr>existsSync = (\<lambda>d. True), processCwd = ''/home/u''\<rparr> \<lparr>cwd = Some ''sub''\<rparr>
     = ''/home/u/sub''
   \<and> distinct
       (readWriteSet
          \<lparr>config = \<lparr>enabled = None, mode = None, network = None,
                     allowPaths = Some [''out'', ''./out''], readOnlyPaths = Some [''out'', ''/opt'']\<rparr>,
           requirements = \<lparr>authPaths = [''/opt''], binaryPaths = [], runtimePaths = []\<rparr>\<rparr>
          \<lparr>existsSync = (\<lambda>d. True), processCwd = ''/home/u''\<rparr> ''/home/u/sub''
        @ readOnlySet
          \<lparr>config = \<lparr>enabled = None, mode = None, network = None,
                     allowPaths = Some [''out'', ''./out''], readOnlyPaths = Some [''out'', ''/opt'']\<rparr>,
           requirements = \<lparr>authPaths = [''/opt''], binaryPaths = [], runtimePaths = []\<rparr>\<rparr>
          \<lparr>existsSync = (\<lambda>d. True), processCwd = ''/home/u''\<rparr> ''/home/u/sub'')
   \<and> args (wrapWithBwrap
          \<lparr>config = \<lparr>enabled = None, mode = None, network = None,
                     allowPaths = Some [''out'', ''./out''], readOnlyPaths = Some [''out'', ''/opt'']\<rparr>,
           requirements = \<lparr>authPaths = [''/opt''], binaryPaths = [], runtimePaths = []\<rparr>\<rparr>
          \<lparr>existsSync = (\<lambda>d. d = ''/usr''), processCwd = ''/home/u''\<rparr>
          ''echo'' [] \<lparr>cwd = Some ''sub''\<rparr>)
     = [''--die-with-parent'', ''--dev'', ''/dev'', ''--proc'', ''/proc'',
        ''--ro-bind'', ''/usr'', ''/usr'',
        ''--bind'', ''/home/u/sub'', ''/home/u/sub'',
        ''--bind'', ''/home/u/sub/out'', ''/home/u/sub/out'',
        ''--ro-bind'', ''/opt'', ''/opt'',
        ''--chdir'', ''/home/u/sub'', ''--'', ''echo'']"
proof -
  let ?H = "\<lparr>existsSync = (\<lambda>d. True), processCwd = ''/home/u''\<rparr>"
  let ?H' = "\<lparr>existsSync = (\<lambda>d. d = ''/usr''), processCwd = ''/home/u''\<rparr>"
  let ?W = "\<lparr>config = \<lparr>enabled = None, mode = None, network = None,
                     allowPaths = Some [''out'', ''./out''], readOnlyPaths = Some [''out'', ''/opt'']\<rparr>,
           requirements = \<lparr>authPaths = [''/opt''], binaryPaths = [], runtimePaths = []\<rparr>\<rparr>"
  let ?O = "\<lparr>cwd = Some ''sub''\<rparr>"
  let ?ps = "[''/a'', ''  '', '''', ''b'', ''/a'', ''./b'', ''/a/'', ''../c'', '' d'']"
  have a: "isAbsolute ''/proj''" by simp
  have c: "cwd ?O = Some ''sub'' \<and> ''sub'' \<noteq> [] \<and> \<not> isAbsolute ''sub''
             \<and> isAbsolute (processCwd ?H)"
    by simp
  have v: "normalizePaths ?H ?ps ''/proj'' = [''/a'', ''/proj/b'', ''/a/'', ''/c'', ''/proj/ d'']"
    by code_simp
  have n: "CHR ''/'' # normalizeString (processCwd ?H @ CHR ''/'' # ''sub'' @ ''/'') False
             = ''/home/u/sub''"
    by code_simp
  have w: "workDirOf ?H' ?O = ''/home/u/sub''"
    by code_simp
  have b: "bwrapArgs ?W ?H' ''/home/u/sub''
     = [''--die-with-parent'', ''--dev'', ''/dev'', ''--proc'', ''/proc'',
        ''--ro-bind'', ''/usr'', ''/usr'',
        ''--bind'', ''/home/u/sub'', ''/home/u/sub'',
        ''--bind'', ''/home/u/sub/out'', ''/home/u/sub/out'',
        ''--ro-bind'', ''/opt'', ''/opt'']"
    by code_simp
  note t = normalizePaths_rules[where h = ?H and paths = ?ps and dir = "''/proj''"
      and ambient = "''/elsewhere''" and options = ?O and this = ?W and wd = "''/home/u/sub''"]
  note t3 = t[THEN conjunct2, THEN conjunct2, THEN conjunct1, rule_format, OF a]
  note t5 = t[THEN conjunct2, THEN conjunct2, THEN conjunct2, THEN conjunct2, THEN conjunct1,
      rule_format, OF c]
  note t8 = t[THEN conjunct2, THEN conjunct2, THEN conjunct2, THEN conjunct2, THEN conjunct2,
      THEN conjunct2, THEN conjunct2, THEN conjunct1]
  have wd: "workDirOf ?H ?O = ''/home/u/sub''"
    using t5 n by simp
  have ar: "args (wrapWithBwrap ?W ?H' ''echo'' [] ?O)
     = [''--die-with-parent'', ''--dev'', ''/dev'', ''--proc'', ''/proc'',
        ''--ro-bind'', ''/usr'', ''/usr'',
        ''--bind'', ''/home/u/sub'', ''/home/u/sub'',
        ''--bind'', ''/home/u/sub/out'', ''/home/u/sub/out'',
        ''--ro-bind'', ''/opt'', ''/opt'',
        ''--chdir'', ''/home/u/sub'', ''--'', ''echo'']"
    by (simp add: args_wrapWithBwrap w b)
  from t[THEN conjunct1] t3[THEN conjunct2] v wd t8 ar show ?thesis by blast
qed

section \<open>Totality\<close>




end
